theory Spec2Isabelle
  imports Complex_Main
begin

section \<open>Errors\<close>

text \<open>
  Python exceptions are values.  Every \<^verbatim>\<open>raise\<close> of the sources is a branch that
  returns \<open>Inl\<close> of one of these; the string is the message.
\<close>

datatype error =
    ValueError string
  | TypeError string
  | KeyError string
  | AttributeError string
  | IndexError string
  | NotImplementedError
  | AssertionError string

section \<open>method.py\<close>

subsection \<open>Gradients\<close>

text \<open>
  \<^verbatim>\<open>gradient.py\<close> is not part of the sources; \<^verbatim>\<open>method.py\<close> only imports the class
  names \<^verbatim>\<open>Autograd\<close>, \<^verbatim>\<open>CheckpointAutograd\<close>, \<^verbatim>\<open>ForwardAutograd\<close> and \<^verbatim>\<open>Gradient\<close>.
  A gradient object is represented by what \<^verbatim>\<open>isinstance\<close> and \<^verbatim>\<open>type(g).__name__\<close>
  read from it: the name of its class and the names of the proper ancestors of
  that class.
\<close>

datatype gradient = GradientObj (type_name: string) (bases: "string list")

definition Autograd :: gradient where
  "Autograd = GradientObj ''Autograd'' [''Gradient'']"

definition CheckpointAutograd :: gradient where
  "CheckpointAutograd = GradientObj ''CheckpointAutograd'' [''Gradient'']"

definition ForwardAutograd :: gradient where
  "ForwardAutograd = GradientObj ''ForwardAutograd'' [''Gradient'']"

text \<open>\<^verbatim>\<open>isinstance(g, classes)\<close> for a tuple of classes; \<^verbatim>\<open>isinstance(None, ...)\<close> is false.\<close>

fun isinstance :: "gradient option \<Rightarrow> string list \<Rightarrow> bool" where
  "isinstance None classes = False"
| "isinstance (Some g) classes =
     list_ex (\<lambda>c. c = type_name g \<or> c \<in> set (bases g)) classes"

subsection \<open>Method classes\<close>

text \<open>The six fields of \<^verbatim>\<open>_DEAdaptiveStep\<close>.\<close>

record adaptive =
  rtol :: real
  atol :: real
  safety_factor :: real
  min_factor :: real
  max_factor :: real
  max_steps :: int

text \<open>
  One constructor per public class, carrying the instance fields of the class:
  \<^verbatim>\<open>dt\<close> for the fixed step methods (and \<^verbatim>\<open>normalize\<close> for \<^verbatim>\<open>Rouchon1\<close>), the adaptive
  step fields, and \<^verbatim>\<open>noclick_method\<close>, \<^verbatim>\<open>root_finder\<close>, \<^verbatim>\<open>smart_sampling\<close> for
  \<^verbatim>\<open>Event\<close>.  A root finder is an object of an external library and is kept by
  its name.
\<close>

datatype Method =
    Expm
  | Euler real
  | EulerMaruyama real
  | Rouchon1 real bool
  | Dopri5 adaptive
  | Dopri8 adaptive
  | Tsit5 adaptive
  | Kvaerno3 adaptive
  | Kvaerno5 adaptive
  | Event Method "string option" bool

text \<open>\<^verbatim>\<open>cls.__name__\<close> for the class of a method object.\<close>

fun cls_name :: "Method \<Rightarrow> string" where
  "cls_name Expm = ''Expm''"
| "cls_name (Euler dt) = ''Euler''"
| "cls_name (EulerMaruyama dt) = ''EulerMaruyama''"
| "cls_name (Rouchon1 dt nz) = ''Rouchon1''"
| "cls_name (Dopri5 a) = ''Dopri5''"
| "cls_name (Dopri8 a) = ''Dopri8''"
| "cls_name (Tsit5 a) = ''Tsit5''"
| "cls_name (Kvaerno3 a) = ''Kvaerno3''"
| "cls_name (Kvaerno5 a) = ''Kvaerno5''"
| "cls_name (Event nm rf ss) = ''Event''"

text \<open>The class variable \<^verbatim>\<open>SUPPORTED_GRADIENT\<close> of each class, as the tuple of class names.\<close>

fun SUPPORTED_GRADIENT :: "Method \<Rightarrow> string list" where
  "SUPPORTED_GRADIENT Expm = [''Autograd'']"
| "SUPPORTED_GRADIENT (EulerMaruyama dt) = [''Autograd'']"
| "SUPPORTED_GRADIENT (Euler dt) = [''Autograd'', ''CheckpointAutograd'', ''ForwardAutograd'']"
| "SUPPORTED_GRADIENT (Rouchon1 dt nz) = [''Autograd'', ''CheckpointAutograd'', ''ForwardAutograd'']"
| "SUPPORTED_GRADIENT (Dopri5 a) = [''Autograd'', ''CheckpointAutograd'', ''ForwardAutograd'']"
| "SUPPORTED_GRADIENT (Dopri8 a) = [''Autograd'', ''CheckpointAutograd'', ''ForwardAutograd'']"
| "SUPPORTED_GRADIENT (Tsit5 a) = [''Autograd'', ''CheckpointAutograd'', ''ForwardAutograd'']"
| "SUPPORTED_GRADIENT (Kvaerno3 a) = [''Autograd'', ''CheckpointAutograd'', ''ForwardAutograd'']"
| "SUPPORTED_GRADIENT (Kvaerno5 a) = [''Autograd'', ''CheckpointAutograd'', ''ForwardAutograd'']"
| "SUPPORTED_GRADIENT (Event nm rf ss) = [''Autograd'', ''CheckpointAutograd'', ''ForwardAutograd'']"

text \<open>\<^verbatim>\<open>Method.supports_gradient\<close>, a class method: \<^verbatim>\<open>cls\<close> is the class of the object it is called on.\<close>

definition supports_gradient :: "Method \<Rightarrow> gradient option \<Rightarrow> bool" where
  "supports_gradient cls gradient = isinstance gradient (SUPPORTED_GRADIENT cls)"

text \<open>\<^verbatim>\<open>sep.join(xs)\<close> on strings.\<close>

fun join :: "string \<Rightarrow> string list \<Rightarrow> string" where
  "join sep [] = []"
| "join sep [x] = x"
| "join sep (x # y # ys) = x @ sep @ join sep (y # ys)"

text \<open>The \<^verbatim>\<open>support_str\<close> of \<^verbatim>\<open>assert_supports_gradient\<close> and of its sibling for methods.\<close>

definition support_str :: "string list \<Rightarrow> string" where
  "support_str names = join '', '' (map (\<lambda>x. ''`'' @ x @ ''`'') names)"

text \<open>\<^verbatim>\<open>Method.assert_supports_gradient\<close>: returns nothing, or raises \<^verbatim>\<open>ValueError\<close>.\<close>

definition assert_supports_gradient :: "Method \<Rightarrow> gradient option \<Rightarrow> error + unit" where
  "assert_supports_gradient cls gradient =
     (if gradient \<noteq> None \<and> \<not> supports_gradient cls gradient then
        Inl (ValueError
          (''Method `'' @ cls_name cls @ ''` does not support gradient''
           @ '' `'' @ type_name (the gradient) @ ''` (supported gradient types:''
           @ '' '' @ support_str (SUPPORTED_GRADIENT cls) @ '').''))
      else Inr ())"

subsection \<open>Attribute access\<close>

text \<open>
  The values an attribute of a method object can have.  A function is kept by the class
  that defines it and its name, a docstring and an annotations dictionary by the class
  whose class statement holds them.
\<close>

datatype attr =
    AFloat real
  | AInt int
  | ABool bool
  | AStr string
  | AMethod Method
  | ARootFinder "string option"
  | AClasses "string list"
  | AFunction string string
  | ADocstring string
  | AAnnotations string

text \<open>The instance fields of a method object, by name.\<close>

definition adaptive_fields :: "adaptive \<Rightarrow> (string \<times> attr) list" where
  "adaptive_fields a =
     [(''rtol'', AFloat (rtol a)), (''atol'', AFloat (atol a)),
      (''safety_factor'', AFloat (safety_factor a)), (''min_factor'', AFloat (min_factor a)),
      (''max_factor'', AFloat (max_factor a)), (''max_steps'', AInt (max_steps a))]"

fun fields :: "Method \<Rightarrow> (string \<times> attr) list" where
  "fields Expm = []"
| "fields (Euler dt) = [(''dt'', AFloat dt)]"
| "fields (EulerMaruyama dt) = [(''dt'', AFloat dt)]"
| "fields (Rouchon1 dt nz) = [(''dt'', AFloat dt), (''normalize'', ABool nz)]"
| "fields (Dopri5 a) = adaptive_fields a"
| "fields (Dopri8 a) = adaptive_fields a"
| "fields (Tsit5 a) = adaptive_fields a"
| "fields (Kvaerno3 a) = adaptive_fields a"
| "fields (Kvaerno5 a) = adaptive_fields a"
| "fields (Event nm rf ss) =
     [(''noclick_method'', AMethod nm), (''root_finder'', ARootFinder rf),
      (''smart_sampling'', ABool ss)]"

text \<open>
  The attributes that the class statements of \<^verbatim>\<open>method.py\<close> give a method object through
  its class: the class variable \<^verbatim>\<open>SUPPORTED_GRADIENT\<close>, the three functions of \<^verbatim>\<open>Method\<close>,
  the \<^verbatim>\<open>__init__\<close> that each public class writes, \<^verbatim>\<open>__getattr__\<close> for \<^verbatim>\<open>Event\<close>, and what
  every class statement stores: the docstring of the class as \<^verbatim>\<open>__doc__\<close> (each public
  class has one), the name of the module as \<^verbatim>\<open>__module__\<close> and the annotations of the
  class body as \<^verbatim>\<open>__annotations__\<close> (each public class annotates
  \<^verbatim>\<open>SUPPORTED_GRADIENT\<close>).
\<close>

definition class_attrs :: "Method \<Rightarrow> (string \<times> attr) list" where
  "class_attrs m =
     [(''SUPPORTED_GRADIENT'', AClasses (SUPPORTED_GRADIENT m)),
      (''supports_gradient'', AFunction ''Method'' ''supports_gradient''),
      (''assert_supports_gradient'', AFunction ''Method'' ''assert_supports_gradient''),
      (''__str__'', AFunction ''Method'' ''__str__''),
      (''__init__'', AFunction (cls_name m) ''__init__''),
      (''__doc__'', ADocstring (cls_name m)),
      (''__module__'', AStr ''dynamiqs.method''),
      (''__annotations__'', AAnnotations (cls_name m))]
     @ (case m of Event nm rf ss \<Rightarrow> [(''__getattr__'', AFunction ''Event'' ''__getattr__'')]
        | _ \<Rightarrow> [])"

text \<open>
  Python's ordinary lookup on a method object: the names of \<^verbatim>\<open>method.py\<close> first (the
  instance fields, then the class), then what the object has from outside \<^verbatim>\<open>method.py\<close>.
  The latter is the parameter \<open>base\<close>: the attributes that \<^verbatim>\<open>object\<close>, \<^verbatim>\<open>equinox.Module\<close>,
  the dataclass machinery and the interpreter give the object (\<^verbatim>\<open>__class__\<close>, \<^verbatim>\<open>__dict__\<close>,
  \<^verbatim>\<open>__eq__\<close>, \<^verbatim>\<open>__hash__\<close>, \<^verbatim>\<open>__repr__\<close>, \<^verbatim>\<open>__dataclass_fields__\<close>, ...), none of which is
  written in the sources.
\<close>

definition normal_lookup ::
  "(Method \<Rightarrow> string \<Rightarrow> attr option) \<Rightarrow> Method \<Rightarrow> string \<Rightarrow> attr option" where
  "normal_lookup base m a =
     (case map_of (fields m @ class_attrs m) a of
        Some v \<Rightarrow> Some v
      | None \<Rightarrow> base m a)"

text \<open>
  \<^verbatim>\<open>getattr(m, a)\<close>.  Python calls \<^verbatim>\<open>__getattr__\<close> only when the ordinary lookup
  fails; \<^verbatim>\<open>Event.__getattr__\<close> then returns \<^verbatim>\<open>getattr(self.noclick_method, attr)\<close>.
  The other classes have no \<^verbatim>\<open>__getattr__\<close> and raise \<^verbatim>\<open>AttributeError\<close>.
\<close>

fun getattr :: "(Method \<Rightarrow> string \<Rightarrow> attr option) \<Rightarrow> Method \<Rightarrow> string \<Rightarrow> error + attr" where
  "getattr base (Event nm rf ss) a =
     (case normal_lookup base (Event nm rf ss) a of
        Some v \<Rightarrow> Inr v
      | None \<Rightarrow> getattr base nm a)"
| "getattr base m a =
     (case normal_lookup base m a of
        Some v \<Rightarrow> Inr v
      | None \<Rightarrow> Inl (AttributeError a))"

section \<open>Values and arrays\<close>

text \<open>The five recognised options, the fields of an \<^verbatim>\<open>Options\<close> object that \<^verbatim>\<open>jssesolve\<close> reads.\<close>

record options =
  save_states :: bool
  cartesian_batching :: bool
  t0 :: "real option"
  save_extra :: "string option"
  nmaxclick :: int

text \<open>
  Python values, as far as \<^verbatim>\<open>jssesolve.py\<close> tells them apart.  An array (a JAX array, a
  qarray or a time qarray) is its shape and the function from indices to entries; the
  type \<open>'a\<close> of the entries is left open.
\<close>

datatype 'a val =
    VNone
  | VBool bool
  | VFloat real
  | Arr "nat list" "nat list \<Rightarrow> 'a"
  | VList "'a val list"
  | VMethod Method
  | VGradient "gradient option"
  | VOptions options

text \<open>
  A result object (\<^verbatim>\<open>JSSESolveResult\<close>) as the tree that \<^verbatim>\<open>jax.vmap\<close> and \<^verbatim>\<open>jax.tree\<close> see:
  its leaves, in order, each under the name of the top-level field that holds it.
\<close>

type_synonym 'a result = "(string \<times> 'a val) list"

text \<open>\<^verbatim>\<open>x.shape\<close>, \<^verbatim>\<open>x.ndim\<close>, and whether a value is an array.\<close>

fun shape_of :: "'a val \<Rightarrow> nat list" where
  "shape_of (Arr s g) = s"
| "shape_of v = []"

definition ndim :: "'a val \<Rightarrow> nat" where
  "ndim v = length (shape_of v)"

fun is_array :: "'a val \<Rightarrow> bool" where
  "is_array (Arr s g) = True"
| "is_array v = False"

text \<open>\<^verbatim>\<open>x[i]\<close> along the first axis; values that are not arrays are left as they are.\<close>

fun slice :: "nat \<Rightarrow> 'a val \<Rightarrow> 'a val" where
  "slice i (Arr s g) = Arr (tl s) (\<lambda>idx. g (i # idx))"
| "slice i v = v"

text \<open>Sequencing of statements that can raise: the first error ends the computation.\<close>

definition and_then :: "error + 'b \<Rightarrow> ('b \<Rightarrow> error + 'c) \<Rightarrow> error + 'c" where
  "and_then x f = (case x of Inl e \<Rightarrow> Inl e | Inr y \<Rightarrow> f y)"

text \<open>A list comprehension whose elements can raise, evaluated from left to right.\<close>

fun collect :: "(error + 'b) list \<Rightarrow> error + 'b list" where
  "collect [] = Inr []"
| "collect (x # xs) = and_then x (\<lambda>y. and_then (collect xs) (\<lambda>ys. Inr (y # ys)))"

subsection \<open>\<^verbatim>\<open>jax.vmap\<close>\<close>

text \<open>
  JAX is an external library; what follows is the documented behaviour of
  \<^verbatim>\<open>jax.vmap(f, in_axes, out_axes)\<close>, for the axis specifications \<^verbatim>\<open>None\<close> and \<^verbatim>\<open>0\<close> that
  \<^verbatim>\<open>jssesolve.py\<close> uses (any other axis gives \<open>NotImplementedError\<close> here).  The arguments
  are the flat list of the leaves of the argument tree, \<open>in_axes\<close> has one entry per leaf.

  \<open>axis_size\<close> is the extent of the mapped axis: the common extent of the first axis of the
  mapped arguments; \<^verbatim>\<open>jax.vmap\<close> raises \<^verbatim>\<open>ValueError\<close> when nothing is mapped, when a mapped
  argument has rank 0, and when the extents differ.
\<close>

definition axis_size :: "nat option list \<Rightarrow> 'a val list \<Rightarrow> error + nat" where
  "axis_size in_axes args =
     (let mapped = map snd (filter (\<lambda>(ax, v). ax \<noteq> None) (zip in_axes args)) in
      if length in_axes \<noteq> length args then
        Inl (ValueError ''vmap in_axes must match the arguments'')
      else if list_ex (\<lambda>ax. ax \<noteq> None \<and> ax \<noteq> Some 0) in_axes then Inl NotImplementedError
      else if list_ex (\<lambda>v. \<not> is_array v \<or> shape_of v = []) mapped then
        Inl (ValueError ''vmap was requested to map an argument of rank 0 along axis 0'')
      else
        (case map (\<lambda>v. hd (shape_of v)) mapped of
           [] \<Rightarrow> Inl (ValueError ''vmap must have at least one non-None value in in_axes'')
         | n # ns \<Rightarrow>
             if list_all (\<lambda>m. m = n) ns then Inr n
             else Inl (ValueError ''vmap got inconsistent sizes for array axes to be mapped'')))"

text \<open>The arguments of the call for index \<open>i\<close> of the mapped axis.\<close>

definition slice_args :: "nat option list \<Rightarrow> 'a val list \<Rightarrow> nat \<Rightarrow> 'a val list" where
  "slice_args in_axes args i =
     map (\<lambda>(ax, v). if ax = None then v else slice i v) (zip in_axes args)"

text \<open>The leaf number \<open>j\<close> of each of a list of results.\<close>

definition column :: "nat \<Rightarrow> 'a result list \<Rightarrow> 'a val list" where
  "column j rs = map (\<lambda>r. snd (r ! j)) rs"

text \<open>
  Stacking leaves along a new first axis.  The shape of the slices is that of the traced
  leaf (\<open>s0\<close>, with entries \<open>g0\<close>), which also stands in where the mapped axis is empty.
\<close>

fun stack :: "nat list \<Rightarrow> (nat list \<Rightarrow> 'a) \<Rightarrow> 'a val list \<Rightarrow> 'a val" where
  "stack s0 g0 leaves =
     Arr (length leaves # s0)
       (\<lambda>idx. case idx of
          [] \<Rightarrow> g0 []
        | i # rest \<Rightarrow>
            (if i < length leaves then
               (case leaves ! i of Arr s g \<Rightarrow> g rest | _ \<Rightarrow> g0 rest)
             else g0 rest))"

text \<open>
  One output leaf: a leaf whose \<open>out_axes\<close> entry is \<^verbatim>\<open>None\<close> is not batched and is the leaf of
  the traced call; a leaf whose entry is \<^verbatim>\<open>0\<close> is the stack of the leaves of the slices.
\<close>

definition stack_leaf ::
  "(string \<Rightarrow> nat option) \<Rightarrow> string \<times> 'a val \<Rightarrow> 'a val list \<Rightarrow> error + string \<times> 'a val" where
  "stack_leaf out_axes nv leaves =
     (case out_axes (fst nv) of
        None \<Rightarrow> Inr nv
      | Some k \<Rightarrow>
          if k \<noteq> 0 then Inl NotImplementedError
          else
            (case snd nv of
               Arr s0 g0 \<Rightarrow> Inr (fst nv, stack s0 g0 leaves)
             | _ \<Rightarrow> Inl (TypeError ''vmap output is not an array'')))"

text \<open>
  \<^verbatim>\<open>jax.vmap(f, in_axes, out_axes)(*args)\<close>.  The function is traced once (the call on the
  slice 0, which exists as an abstract value even when the mapped axis is empty) and an
  error of the function at any slice is an error of the whole map.
\<close>

definition vmap ::
  "('a val list \<Rightarrow> error + 'a result) \<Rightarrow> nat option list \<Rightarrow> (string \<Rightarrow> nat option) \<Rightarrow>
   'a val list \<Rightarrow> error + 'a result" where
  "vmap f in_axes out_axes args =
     and_then (axis_size in_axes args) (\<lambda>n.
     and_then (f (slice_args in_axes args 0)) (\<lambda>r0.
     and_then (collect (map (\<lambda>i. f (slice_args in_axes args i)) [0..<n])) (\<lambda>rs.
       if list_all (\<lambda>r. map fst r = map fst r0) rs then
         collect (map (\<lambda>(j, nv). stack_leaf out_axes nv (column j rs)) (enumerate 0 r0))
       else Inl (ValueError ''vmap outputs differ in tree structure''))))"

subsection \<open>The batching helpers of \<^verbatim>\<open>integrators/_utils.py\<close>\<close>

text \<open>
  Modelled from the spec: \<^verbatim>\<open>multi_vmap\<close> and \<^verbatim>\<open>cartesian_vmap\<close> are imported by
  \<^verbatim>\<open>jssesolve.py\<close> from \<^verbatim>\<open>integrators/_utils.py\<close>, which is not among the sources.  The
  spec describes the shared mode as a single multi-dimensional vectorized map over the
  common batch shape, and the cartesian mode as nested vectorized maps, one per batch
  dimension, applied outermost to innermost, with one group of output axes per operand in
  the order of the operands.  So \<open>multi_vmap f in_axes out_axes n\<close> wraps \<open>f\<close> in \<open>n\<close> maps
  over all the batched arguments at once, and \<open>cartesian_vmap\<close> wraps \<open>f\<close>, from the last
  operand to the first, in \<open>nvmap[i]\<close> maps over the operand \<open>i\<close> alone (\<open>only_leaf\<close>), so
  that the axes of the first operand are outermost.
\<close>

definition multi_vmap ::
  "('a val list \<Rightarrow> error + 'a result) \<Rightarrow> nat option list \<Rightarrow> (string \<Rightarrow> nat option) \<Rightarrow> nat \<Rightarrow>
   'a val list \<Rightarrow> error + 'a result" where
  "multi_vmap f in_axes out_axes nvmap = ((\<lambda>g. vmap g in_axes out_axes) ^^ nvmap) f"

definition only_leaf :: "nat \<Rightarrow> nat option list \<Rightarrow> nat option list" where
  "only_leaf i in_axes = map (\<lambda>(j, ax). if j = i then ax else None) (enumerate 0 in_axes)"

definition cartesian_vmap ::
  "('a val list \<Rightarrow> error + 'a result) \<Rightarrow> nat option list \<Rightarrow> (string \<Rightarrow> nat option) \<Rightarrow>
   nat list \<Rightarrow> 'a val list \<Rightarrow> error + 'a result" where
  "cartesian_vmap f in_axes out_axes nvmap =
     fold (\<lambda>(i, leaf, n) g.
             if leaf \<noteq> None \<and> n > 0 then multi_vmap g (only_leaf i in_axes) out_axes n else g)
          (rev (enumerate 0 (zip in_axes nvmap))) f"

subsection \<open>Broadcasting\<close>

text \<open>
  \<^verbatim>\<open>jnp.broadcast_shapes\<close>, of the external library: shapes are aligned at their last
  axis; two extents are compatible when they are equal or one of them is 1; incompatible
  shapes raise \<^verbatim>\<open>ValueError\<close>.  \<open>broadcast_rev\<close> works on the reversed shapes.
\<close>

fun broadcast_rev :: "nat list \<Rightarrow> nat list \<Rightarrow> error + nat list" where
  "broadcast_rev [] ys = Inr ys"
| "broadcast_rev xs [] = Inr xs"
| "broadcast_rev (x # xs) (y # ys) =
     (if x = y \<or> y = 1 then and_then (broadcast_rev xs ys) (\<lambda>r. Inr (x # r))
      else if x = 1 then and_then (broadcast_rev xs ys) (\<lambda>r. Inr (y # r))
      else Inl (ValueError ''Incompatible shapes for broadcasting''))"

fun broadcast_shapes :: "nat list list \<Rightarrow> error + nat list" where
  "broadcast_shapes [] = Inr []"
| "broadcast_shapes (s # ss) =
     and_then (broadcast_shapes ss) (\<lambda>r.
     and_then (broadcast_rev (rev s) (rev r)) (\<lambda>b. Inr (rev b)))"

text \<open>
  Modelled from the spec: \<^verbatim>\<open>broadcast_to\<close> is a method of the qarray and time qarray
  classes, which are not among the sources.  The spec gives a time operator a
  \<^verbatim>\<open>broadcast_to(shape)\<close> with the standard trailing-dimension broadcast rules: the shape
  \<open>s\<close> can be broadcast to \<open>t\<close> when, aligned at the last axis, every extent of \<open>s\<close> is the
  extent of \<open>t\<close> or 1; the entries are repeated along the axes of extent 1 and along the
  new leading axes.
\<close>

definition broadcastable :: "nat list \<Rightarrow> nat list \<Rightarrow> bool" where
  "broadcastable s t =
     (length s \<le> length t \<and> list_all2 (\<lambda>d e. d = e \<or> d = 1) s (drop (length t - length s) t))"

fun broadcast_to :: "'a val \<Rightarrow> nat list \<Rightarrow> error + 'a val" where
  "broadcast_to (Arr s g) t =
     (if broadcastable s t then
        Inr (Arr t (\<lambda>idx. g (map (\<lambda>(d, i). if d = 1 then 0 else i)
                               (zip s (drop (length t - length s) idx)))))
      else Inl (ValueError ''Incompatible shapes for broadcasting''))"
| "broadcast_to v t = Inl (TypeError ''broadcast_to'')"


section \<open>jssesolve.py\<close>

subsection \<open>The argument checks\<close>

text \<open>\<^verbatim>\<open>str(n)\<close> for a natural number, as the f-strings of the messages print an index.\<close>

fun digit :: "nat \<Rightarrow> char" where
  "digit n = ''0123456789'' ! (n mod 10)"

function str :: "nat \<Rightarrow> string" where
  "str n = (if n < 10 then [digit n] else str (n div 10) @ [digit n])"
  by pat_completeness auto
termination
  by (relation "measure id") auto

text \<open>\<^verbatim>\<open>str(t)\<close> for a tuple of natural numbers: \<^verbatim>\<open>()\<close>, \<^verbatim>\<open>(2,)\<close>, \<^verbatim>\<open>(2, 1)\<close>.\<close>

fun tuple_str :: "nat list \<Rightarrow> string" where
  "tuple_str [] = ''()''"
| "tuple_str [d] = ''('' @ str d @ '',)''"
| "tuple_str ds = ''('' @ join '', '' (map str ds) @ '')''"

text \<open>
  Modelled from the spec: \<^verbatim>\<open>check_shape\<close> is imported from \<^verbatim>\<open>_checks.py\<close>, which is not
  among the sources.  The spec has the shape patterns \<^verbatim>\<open>(..., n, n)\<close> for an operator,
  \<^verbatim>\<open>(..., n, 1)\<close> for a ket and \<^verbatim>\<open>(n, n)\<close> for an observable, and has a shape mismatch
  raise a configuration error whose message identifies the offending argument and the
  expected shape pattern.  \<open>has_shape\<close> is the test of a pattern (\<^verbatim>\<open>...\<close> stands for any
  number of leading axes, \<^verbatim>\<open>n\<close> for one extent); \<open>apply_subs\<close> is the replacement
  \<^verbatim>\<open>subs={'...': r}\<close> that the call sites ask for in the printed pattern; \<open>shape_message\<close>
  is the message, which names the argument, the expected pattern and the shape found:
  \<^verbatim>\<open>Argument `H` must have shape (...H, n, n), but has shape H.shape=(2, 1).\<close>
\<close>

definition has_shape :: "'a val \<Rightarrow> string \<Rightarrow> bool" where
  "has_shape x shape =
     (let s = shape_of x in
      if shape = ''(..., n, n)'' then
        length s \<ge> 2 \<and> last s = last (butlast s)
      else if shape = ''(..., n, 1)'' then
        length s \<ge> 2 \<and> last s = 1
      else if shape = ''(n, n)'' then
        length s = 2 \<and> last s = last (butlast s)
      else False)"

definition shape_message :: "string \<Rightarrow> string \<Rightarrow> nat list \<Rightarrow> string" where
  "shape_message argname shape found =
     ''Argument `'' @ argname @ ''` must have shape '' @ shape @ '', but has shape ''
     @ argname @ ''.shape='' @ tuple_str found @ ''.''"

definition apply_subs :: "string \<Rightarrow> string option \<Rightarrow> string" where
  "apply_subs shape subs =
     (case subs of
        None \<Rightarrow> shape
      | Some r \<Rightarrow> if take 4 shape = ''(...'' then ''('' @ r @ drop 4 shape else shape)"

definition check_shape :: "'a val \<Rightarrow> string \<Rightarrow> string \<Rightarrow> string option \<Rightarrow> error + unit" where
  "check_shape x argname shape subs =
     (if has_shape x shape then Inr ()
      else Inl (ValueError (shape_message argname (apply_subs shape subs) (shape_of x))))"

text \<open>
  \<^verbatim>\<open>for i, x in enumerate(xs): chk(i, x)\<close>, counting from \<open>i\<close>: the first check that raises
  ends the loop.
\<close>

fun check_each ::
  "(nat \<Rightarrow> 'a val \<Rightarrow> error + unit) \<Rightarrow> nat \<Rightarrow> 'a val list \<Rightarrow> error + unit" where
  "check_each chk i [] = Inr ()"
| "check_each chk i (x # xs) = and_then (chk i x) (\<lambda>_. check_each chk (Suc i) xs)"

text \<open>The message of the \<^verbatim>\<open>ValueError\<close> that \<^verbatim>\<open>_check_jssesolve_args\<close> raises itself.\<close>

definition empty_jump_ops_message :: string where
  "empty_jump_ops_message =
     ''Argument `jump_ops` is an empty list, consider using `dq.sesolve()` to''
     @ '' solve the Schr'' @ [CHR 0xF6] @ ''dinger equation.''"

text \<open>
  \<^verbatim>\<open>_check_jssesolve_args\<close>, statement by statement: the shape of \<open>H\<close>, the shape of each
  jump operator, the test for the empty list, the shape of \<open>psi0\<close>, the shape of each
  observable.
\<close>

definition check_jssesolve_args ::
  "'a val \<Rightarrow> 'a val list \<Rightarrow> 'a val \<Rightarrow> 'a val list option \<Rightarrow> error + unit" where
  "check_jssesolve_args H Ls psi0 exp_ops =
     and_then (check_shape H ''H'' ''(..., n, n)'' (Some ''...H'')) (\<lambda>_.
     and_then (check_each (\<lambda>i L. check_shape L (''jump_ops['' @ str i @ '']'') ''(..., n, n)''
                                     (Some (''...L'' @ str i))) 0 Ls) (\<lambda>_.
     if length Ls = 0 then Inl (ValueError empty_jump_ops_message)
     else
       and_then (check_shape psi0 ''psi0'' ''(..., n, 1)'' (Some ''...psi0'')) (\<lambda>_.
       (case exp_ops of
          None \<Rightarrow> Inr ()
        | Some es \<Rightarrow>
            check_each (\<lambda>i E. check_shape E (''exp_ops['' @ str i @ '']'') ''(n, n)'' None) 0 es))))"

subsection \<open>What \<^verbatim>\<open>jssesolve.py\<close> calls and the sources do not contain\<close>

text \<open>
  The functions that \<^verbatim>\<open>jssesolve.py\<close> imports from modules outside the sources are
  parameters, gathered in one record, so that every statement below holds whatever they
  are:

    \<^item> \<open>astimeqarray\<close>, \<open>asqarray\<close> and \<open>asarray\<close> are the conversions \<^verbatim>\<open>astimeqarray\<close>,
      \<^verbatim>\<open>asqarray\<close> and \<^verbatim>\<open>jnp.asarray\<close> of the first lines of \<^verbatim>\<open>jssesolve\<close>; each returns the
      converted value or raises;
    \<^item> \<open>check_times\<close> and \<open>check_options\<close> are the checks of these names, and \<open>initialise\<close>
      is \<^verbatim>\<open>Options.initialise\<close>;
    \<^item> \<open>integrator_run\<close> is the integrator: the constructor of the given name applied to
      the keyword arguments of \<^verbatim>\<open>_jssesolve_single_trajectory\<close>, followed by \<^verbatim>\<open>run()\<close>;
    \<^item> \<open>final_state_norm\<close> is the property \<^verbatim>\<open>final_state_norm\<close> of a result;
    \<^item> \<open>object_attrs\<close> is what the ordinary attribute lookup finds on a method object
      beyond the names of \<^verbatim>\<open>method.py\<close> (the parameter \<open>base\<close> of \<open>normal_lookup\<close>).
\<close>

record 'a env =
  astimeqarray :: "'a val \<Rightarrow> error + 'a val"
  asqarray :: "'a val \<Rightarrow> error + 'a val"
  asarray :: "'a val \<Rightarrow> error + 'a val"
  integrator_run ::
    "string \<Rightarrow> 'a val \<Rightarrow> 'a val \<Rightarrow> Method \<Rightarrow> gradient option \<Rightarrow> options \<Rightarrow> 'a val \<Rightarrow>
     'a val list \<Rightarrow> 'a val list option \<Rightarrow> 'a val \<Rightarrow> bool \<Rightarrow> real \<Rightarrow> 'a result"
  final_state_norm :: "'a result \<Rightarrow> real"
  check_times :: "'a val \<Rightarrow> string \<Rightarrow> error + 'a val"
  check_options :: "options \<Rightarrow> string \<Rightarrow> error + unit"
  initialise :: "options \<Rightarrow> options"
  object_attrs :: "Method \<Rightarrow> string \<Rightarrow> attr option"

text \<open>
  Modelled from the spec: \<^verbatim>\<open>JSSESolveResult.out_axes()\<close> belongs to \<^verbatim>\<open>result.py\<close>, which is
  not among the sources.  The comment at its call site, and the spec, have the result
  vectorized over \<^verbatim>\<open>_saved\<close>, \<^verbatim>\<open>infos\<close> and \<^verbatim>\<open>keys\<close>: these fields get the axis 0, every
  other field gets \<^verbatim>\<open>None\<close>.
\<close>

definition out_axes :: "string \<Rightarrow> nat option" where
  "out_axes name = (if name \<in> {''_saved'', ''infos'', ''keys''} then Some 0 else None)"

text \<open>
  Modelled from the spec: \<^verbatim>\<open>assert_method_supported\<close> is imported from
  \<^verbatim>\<open>integrators/_utils.py\<close>, which is not among the sources.  It raises a \<^verbatim>\<open>TypeError\<close>
  when the method is not an object of one of the supported classes; the message follows
  that of \<^verbatim>\<open>assert_supports_gradient\<close>.
\<close>

definition assert_method_supported :: "Method \<Rightarrow> string list \<Rightarrow> error + unit" where
  "assert_method_supported method supported_methods =
     (if cls_name method \<in> set supported_methods then Inr ()
      else Inl (TypeError
        (''Method of type `'' @ cls_name method @ ''` is not supported (supported method types: ''
         @ support_str supported_methods @ '').'')))"

subsection \<open>\<^verbatim>\<open>_jssesolve_single_trajectory\<close>\<close>

text \<open>The dictionary \<^verbatim>\<open>integrator_constructors\<close>, keyed by the class of the no-click method.\<close>

definition integrator_constructors :: "(string \<times> string) list" where
  "integrator_constructors =
     [(''Euler'', ''jssesolve_event_euler_integrator_constructor''),
      (''Dopri5'', ''jssesolve_event_dopri5_integrator_constructor''),
      (''Dopri8'', ''jssesolve_event_dopri8_integrator_constructor''),
      (''Tsit5'', ''jssesolve_event_tsit5_integrator_constructor''),
      (''Kvaerno3'', ''jssesolve_event_kvaerno3_integrator_constructor''),
      (''Kvaerno5'', ''jssesolve_event_kvaerno5_integrator_constructor'')]"

text \<open>
  \<^verbatim>\<open>_jssesolve_single_trajectory\<close>: the method must be an \<^verbatim>\<open>Event\<close>; the constructor is
  looked up by the class of \<^verbatim>\<open>method.noclick_method\<close> (a missing key raises \<^verbatim>\<open>KeyError\<close>);
  the gradient is checked; then the integrator is built and run.
\<close>

definition jssesolve_single_trajectory ::
  "'a env \<Rightarrow> 'a val \<Rightarrow> 'a val list \<Rightarrow> 'a val \<Rightarrow> 'a val \<Rightarrow> 'a val \<Rightarrow> bool \<Rightarrow> real \<Rightarrow>
   'a val list option \<Rightarrow> Method \<Rightarrow> gradient option \<Rightarrow> options \<Rightarrow> error + 'a result" where
  "jssesolve_single_trajectory env H Ls psi0 tsave key noclick noclick_min_prob exp_ops
       method gradient options =
     and_then (assert_method_supported method [''Event'']) (\<lambda>_.
     and_then
       (case method of
          Event noclick_method rf ss \<Rightarrow>
            (case map_of integrator_constructors (cls_name noclick_method) of
               None \<Rightarrow> Inl (KeyError (cls_name noclick_method))
             | Some c \<Rightarrow> Inr c)
        | _ \<Rightarrow> Inl NotImplementedError) (\<lambda>integrator_constructor.
     and_then (assert_supports_gradient method gradient) (\<lambda>_.
       Inr (integrator_run env integrator_constructor tsave psi0 method gradient options
              H Ls exp_ops key noclick noclick_min_prob))))"

text \<open>
  The same function on the flat list of its eleven arguments, as \<open>vmap\<close> calls it;
  \<^verbatim>\<open>exp_ops\<close> travels as \<open>VNone\<close> or as a list.
\<close>

fun exp_of :: "'a val \<Rightarrow> 'a val list option" where
  "exp_of (VList es) = Some es"
| "exp_of v = None"

fun exp_val :: "'a val list option \<Rightarrow> 'a val" where
  "exp_val None = VNone"
| "exp_val (Some es) = VList es"

definition single_trajectory_on :: "'a env \<Rightarrow> 'a val list \<Rightarrow> error + 'a result" where
  "single_trajectory_on env args =
     (case args of
        [H, VList Ls, psi0, tsave, key, VBool noclick, VFloat p, eo, VMethod method,
         VGradient gradient, VOptions options] \<Rightarrow>
          jssesolve_single_trajectory env H Ls psi0 tsave key noclick p (exp_of eo)
            method gradient options
      | _ \<Rightarrow> Inl (TypeError ''_jssesolve_single_trajectory: arguments''))"

subsection \<open>\<^verbatim>\<open>_vectorized_clicks_jssesolve\<close>\<close>

text \<open>
  \<^verbatim>\<open>keys[0]\<close>, \<^verbatim>\<open>keys[1:]\<close>, \<^verbatim>\<open>leaf[None]\<close> and \<^verbatim>\<open>jnp.concatenate((a, b))\<close> along the first
  axis, of the external library.
\<close>

fun index0 :: "'a val \<Rightarrow> error + 'a val" where
  "index0 (Arr (d # s) g) =
     (if d = 0 then Inl (IndexError ''index 0 is out of bounds for axis 0 with size 0'')
      else Inr (Arr s (\<lambda>idx. g (0 # idx))))"
| "index0 v = Inl (IndexError ''too many indices for array'')"

fun from1 :: "'a val \<Rightarrow> error + 'a val" where
  "from1 (Arr (d # s) g) =
     Inr (Arr ((d - 1) # s) (\<lambda>idx. case idx of [] \<Rightarrow> g [] | i # rest \<Rightarrow> g (Suc i # rest)))"
| "from1 v = Inl (IndexError ''too many indices for array'')"

fun expand0 :: "'a val \<Rightarrow> error + 'a val" where
  "expand0 (Arr s g) = Inr (Arr (1 # s) (\<lambda>idx. g (tl idx)))"
| "expand0 v = Inl (TypeError ''not subscriptable'')"

fun concatenate :: "'a val \<Rightarrow> 'a val \<Rightarrow> error + 'a val" where
  "concatenate (Arr (d1 # s1) g1) (Arr (d2 # s2) g2) =
     (if s1 = s2 then
        Inr (Arr ((d1 + d2) # s1)
               (\<lambda>idx. case idx of
                  [] \<Rightarrow> g1 []
                | i # rest \<Rightarrow> if i < d1 then g1 (i # rest) else g2 ((i - d1) # rest)))
      else Inl (ValueError ''Cannot concatenate arrays with different shapes''))"
| "concatenate a b = Inl (ValueError ''Zero-dimensional arrays cannot be concatenated'')"

text \<open>
  The local function \<^verbatim>\<open>_concatenate_results\<close>: a leaf of a field that is not vectorized is
  returned as it is in the no-click result; otherwise the no-click leaf gets a leading
  axis and is put in front of the leaves of the click trajectories.
\<close>

definition concatenate_results ::
  "(string \<Rightarrow> nat option) \<Rightarrow> string \<Rightarrow> 'a val \<Rightarrow> 'a val \<Rightarrow> error + 'a val" where
  "concatenate_results oa path0 leaf1 leaf2 =
     (if oa path0 = None then Inr leaf1
      else and_then (expand0 leaf1) (\<lambda>l1. concatenate l1 leaf2))"

text \<open>
  \<^verbatim>\<open>jax.tree.map_with_path(f, r1, r2)\<close>, of the external library: the two trees must have
  the same structure; \<open>f\<close> is given the name of the top-level field of each leaf.
\<close>

definition tree_map_with_path ::
  "(string \<Rightarrow> 'a val \<Rightarrow> 'a val \<Rightarrow> error + 'a val) \<Rightarrow> 'a result \<Rightarrow> 'a result \<Rightarrow> error + 'a result" where
  "tree_map_with_path f r1 r2 =
     (if map fst r1 \<noteq> map fst r2 then Inl (ValueError ''Custom node type mismatch'')
      else collect (map (\<lambda>((name, leaf1), (_, leaf2)).
                           and_then (f name leaf1 leaf2) (\<lambda>v. Inr (name, v)))
                        (zip r1 r2)))"

text \<open>The truth value of an attribute in \<^verbatim>\<open>if method.smart_sampling:\<close>.\<close>

fun truthy :: "attr \<Rightarrow> bool" where
  "truthy (ABool b) = b"
| "truthy (AFloat x) = (x \<noteq> 0)"
| "truthy (AInt i) = (i \<noteq> 0)"
| "truthy (AStr s) = (s \<noteq> [])"
| "truthy (ARootFinder rf) = (rf \<noteq> None)"
| "truthy (AClasses cs) = (cs \<noteq> [])"
| "truthy a = True"

text \<open>
  \<^verbatim>\<open>_vectorized_clicks_jssesolve\<close>: the single-trajectory function is mapped over the
  keys alone; with smart sampling, one no-click trajectory is computed for \<^verbatim>\<open>keys[0]\<close>, the
  others for \<^verbatim>\<open>keys[1:]\<close> with the no-click probability as \<^verbatim>\<open>noclick_min_prob\<close>, and the
  two results are joined leaf by leaf.
\<close>

definition vectorized_clicks_jssesolve ::
  "'a env \<Rightarrow> 'a val \<Rightarrow> 'a val list \<Rightarrow> 'a val \<Rightarrow> 'a val \<Rightarrow> 'a val \<Rightarrow> 'a val list option \<Rightarrow>
   Method \<Rightarrow> gradient option \<Rightarrow> options \<Rightarrow> error + 'a result" where
  "vectorized_clicks_jssesolve env H Ls psi0 tsave keys exp_ops method gradient options =
     (let in_axes = [None, None, None, None, Some 0, None, None, None, None, None, None];
          f = vmap (single_trajectory_on env) in_axes out_axes;
          core_args = [H, VList Ls, psi0, tsave];
          other_args = [exp_val exp_ops, VMethod method, VGradient gradient, VOptions options]
      in
      and_then (getattr (object_attrs env) method ''smart_sampling'') (\<lambda>smart_sampling.
      if truthy smart_sampling then
        and_then (index0 keys) (\<lambda>key0.
        and_then (single_trajectory_on env
                    (core_args @ [key0, VBool True, VFloat 0] @ other_args)) (\<lambda>noclick_result.
        and_then (from1 keys) (\<lambda>keys1.
        and_then (f (core_args
                     @ [keys1, VBool False, VFloat ((final_state_norm env noclick_result)\<^sup>2)]
                     @ other_args)) (\<lambda>click_result.
          tree_map_with_path (concatenate_results out_axes) noclick_result click_result))))
      else
        f (core_args @ [keys, VBool False, VFloat 0] @ other_args)))"

text \<open>
  The same function on the flat list of the leaves of its arguments, as the batching
  helpers call it: \<open>H\<close>, the \<open>nL\<close> jump operators, \<open>psi0\<close>, and the six remaining arguments.
\<close>

definition vectorized_clicks_on :: "'a env \<Rightarrow> nat \<Rightarrow> 'a val list \<Rightarrow> error + 'a result" where
  "vectorized_clicks_on env nL leaves =
     (case leaves of
        [] \<Rightarrow> Inl (TypeError ''_vectorized_clicks_jssesolve: arguments'')
      | H # rest \<Rightarrow>
          (case drop nL rest of
             [psi0, tsave, keys, eo, VMethod method, VGradient gradient, VOptions options] \<Rightarrow>
               vectorized_clicks_jssesolve env H (take nL rest) psi0 tsave keys (exp_of eo)
                 method gradient options
           | _ \<Rightarrow> Inl (TypeError ''_vectorized_clicks_jssesolve: arguments'')))"

subsection \<open>\<^verbatim>\<open>_vectorized_jssesolve\<close> and \<^verbatim>\<open>jssesolve\<close>\<close>

text \<open>
  Modelled from the spec: \<^verbatim>\<open>in_axes\<close> is a property of the time qarray classes, which are
  not among the sources.  The spec batches an operator along its leading axes; the axis
  given to \<^verbatim>\<open>jax.vmap\<close> is the first.
\<close>

definition timeqarray_in_axes :: "'a val \<Rightarrow> nat option" where
  "timeqarray_in_axes x = Some 0"

text \<open>
  \<^verbatim>\<open>_vectorized_jssesolve\<close>: in cartesian mode the function is wrapped by \<^verbatim>\<open>cartesian_vmap\<close>
  with the numbers of batch axes of \<open>H\<close>, of each jump operator and of \<open>psi0\<close>; otherwise
  the batch shapes are broadcast to one shape, the three operands are broadcast to it, and
  the function is wrapped by \<^verbatim>\<open>multi_vmap\<close>.  (The decorators compile the function and
  translate a runtime error of the compiled program; they do not change what it returns.)
\<close>

definition vectorized_jssesolve ::
  "'a env \<Rightarrow> 'a val \<Rightarrow> 'a val list \<Rightarrow> 'a val \<Rightarrow> 'a val \<Rightarrow> 'a val \<Rightarrow> 'a val list option \<Rightarrow>
   Method \<Rightarrow> gradient option \<Rightarrow> options \<Rightarrow> error + 'a result" where
  "vectorized_jssesolve env H Ls psi0 tsave keys exp_ops method gradient options =
     (let f = vectorized_clicks_on env (length Ls);
          in_axes = [timeqarray_in_axes H] @ map timeqarray_in_axes Ls @ [Some 0]
                    @ replicate 6 None;
          rest = [tsave, keys, exp_val exp_ops, VMethod method, VGradient gradient,
                  VOptions options]
      in
      if cartesian_batching options then
        (let nvmap = [ndim H - 2] @ map (\<lambda>L. ndim L - 2) Ls @ [ndim psi0 - 2, 0, 0, 0, 0, 0, 0]
         in cartesian_vmap f in_axes out_axes nvmap ([H] @ Ls @ [psi0] @ rest))
      else
        and_then (broadcast_shapes
                    (map (\<lambda>x. take (ndim x - 2) (shape_of x)) ([H] @ Ls @ [psi0]))) (\<lambda>bshape.
        (let nvmap = length bshape;
             n = last (shape_of H)
         in
         and_then (broadcast_to H (bshape @ [n, n])) (\<lambda>H'.
         and_then (collect (map (\<lambda>L. broadcast_to L (bshape @ [n, n])) Ls)) (\<lambda>Ls'.
         and_then (broadcast_to psi0 (bshape @ [n, 1])) (\<lambda>psi0'.
           multi_vmap f in_axes out_axes nvmap ([H'] @ Ls' @ [psi0'] @ rest)))))))"

text \<open>
  The conversion of \<^verbatim>\<open>exp_ops\<close>: \<^verbatim>\<open>None\<close> stays \<^verbatim>\<open>None\<close>, the empty list becomes \<^verbatim>\<open>None\<close>, and
  each observable of a non-empty list is converted by \<^verbatim>\<open>asqarray\<close>, from left to right.
\<close>

definition convert_exp_ops :: "'a env \<Rightarrow> 'a val list option \<Rightarrow> error + 'a val list option" where
  "convert_exp_ops env exp_ops =
     (case exp_ops of
        None \<Rightarrow> Inr None
      | Some es \<Rightarrow>
          if length es > 0 then and_then (collect (map (asqarray env) es)) (\<lambda>es'. Inr (Some es'))
          else Inr None)"

text \<open>
  \<^verbatim>\<open>jssesolve\<close>, statement by statement: the conversions of \<open>H\<close>, of each jump operator, of
  \<open>psi0\<close>, \<open>tsave\<close>, \<open>keys\<close> and \<open>exp_ops\<close>; the checks of the converted arguments, of the
  times and of the options; the initialisation of the options; the vectorized solve.
\<close>

definition jssesolve ::
  "'a env \<Rightarrow> 'a val \<Rightarrow> 'a val list \<Rightarrow> 'a val \<Rightarrow> 'a val \<Rightarrow> 'a val \<Rightarrow> 'a val list option \<Rightarrow>
   Method \<Rightarrow> gradient option \<Rightarrow> options \<Rightarrow> error + 'a result" where
  "jssesolve env H jump_ops psi0 tsave keys exp_ops method gradient options =
     and_then (astimeqarray env H) (\<lambda>H.
     and_then (collect (map (astimeqarray env) jump_ops)) (\<lambda>Ls.
     and_then (asqarray env psi0) (\<lambda>psi0.
     and_then (asarray env tsave) (\<lambda>tsave.
     and_then (asarray env keys) (\<lambda>keys.
     and_then (convert_exp_ops env exp_ops) (\<lambda>exp_ops.
     and_then (check_jssesolve_args H Ls psi0 exp_ops) (\<lambda>_.
     and_then (check_times env tsave ''tsave'') (\<lambda>tsave.
     and_then (check_options env options ''jssesolve'') (\<lambda>_.
       vectorized_jssesolve env H Ls psi0 tsave keys exp_ops method gradient
         (initialise env options))))))))))"

section \<open>\<^verbatim>\<open>tests/solver_tester.py\<close>\<close>

text \<open>
  A pytree of gradients, as \<^verbatim>\<open>jax.grad\<close> and \<^verbatim>\<open>jax.jacrev\<close> return it for the parameters of a
  test system: the list of its leaves, each leaf an array given by the list of its
  entries.
\<close>

type_synonym pytree = "real list list"

text \<open>
  \<^verbatim>\<open>jnp.allclose(a, b, rtol=rtol, atol=atol)\<close>, of the external library: every entry
  satisfies \<^verbatim>\<open>|a - b| <= atol + rtol * |b|\<close>.  Arrays of unequal sizes, which the library
  broadcasts or refuses, are not modelled.
\<close>

definition allclose :: "real \<Rightarrow> real \<Rightarrow> real list \<Rightarrow> real list \<Rightarrow> error + bool" where
  "allclose rtol' atol' a b =
     (if length a \<noteq> length b then Inl NotImplementedError
      else Inr (list_all2 (\<lambda>x y. \<bar>x - y\<bar> \<le> atol' + rtol' * \<bar>y\<bar>) a b))"

text \<open>
  \<^verbatim>\<open>jax.tree_util.tree_map(f, t1, t2)\<close> for a function that can raise, and
  \<^verbatim>\<open>jax.tree_util.tree_reduce(f, tree, initializer)\<close>, of the external library.
\<close>

definition tree_map2 ::
  "('x \<Rightarrow> 'x \<Rightarrow> error + 'y) \<Rightarrow> 'x list \<Rightarrow> 'x list \<Rightarrow> error + 'y list" where
  "tree_map2 f t1 t2 =
     (if length t1 \<noteq> length t2 then Inl (ValueError ''Tuple arity mismatch'')
      else collect (map (\<lambda>(x, y). f x y) (zip t1 t2)))"

definition tree_reduce :: "('y \<Rightarrow> 'x \<Rightarrow> 'y) \<Rightarrow> 'x list \<Rightarrow> 'y \<Rightarrow> 'y" where
  "tree_reduce f tree initializer = foldl f initializer tree"

text \<open>
  The local function \<^verbatim>\<open>assert_allclose\<close> of \<^verbatim>\<open>_test_gradient\<close>.  The message of the
  assertion prints the two pytrees; \<open>repr\<close> is the printing of a pytree.
\<close>

definition assert_allclose ::
  "(pytree \<Rightarrow> string) \<Rightarrow> real \<Rightarrow> real \<Rightarrow> pytree \<Rightarrow> pytree \<Rightarrow> error + unit" where
  "assert_allclose repr rtol' atol' pytree1 pytree2 =
     and_then (tree_map2 (allclose rtol' atol') pytree1 pytree2) (\<lambda>allclose_tree.
       (let all_true = tree_reduce (\<lambda>x y. x \<and> y) allclose_tree True in
        if all_true then Inr ()
        else Inl (AssertionError
               (''Pytrees are not close enough: '' @ [CHR 0x0A] @ repr pytree1 @ [CHR 0x0A]
                @ repr pytree2))))"

text \<open>
  The four gradients that \<^verbatim>\<open>_test_gradient\<close> computes from its system, solver, gradient and
  options: \<^verbatim>\<open>system.grads_state(...)\<close>, \<^verbatim>\<open>jax.grad(loss_ysave)(...)\<close>,
  \<^verbatim>\<open>system.grads_expect(...)\<close> and \<^verbatim>\<open>jax.jacrev(loss_Esave)(...)\<close>.  The test systems and
  the solvers are not among the sources, so the four values are what the function is
  given here.
\<close>

record gradients =
  true_grads_ysave :: pytree
  grads_ysave :: pytree
  true_grads_Esave :: pytree
  grads_Esave :: pytree

text \<open>
  \<^verbatim>\<open>SolverTester._test_gradient\<close>: the assertion of line 77 and the assertion of line 90,
  as they are written.
\<close>

definition test_gradient ::
  "(pytree \<Rightarrow> string) \<Rightarrow> gradients \<Rightarrow> real \<Rightarrow> real \<Rightarrow> error + unit" where
  "test_gradient repr g rtol' atol' =
     and_then (assert_allclose repr rtol' atol' (true_grads_ysave g) (grads_ysave g)) (\<lambda>_.
       assert_allclose repr rtol' atol' (true_grads_ysave g) (grads_ysave g))"

text \<open>
  The test that the claim describes: the second assertion compares the gradients of the
  expectation values.
\<close>

definition test_gradient_as_described ::
  "(pytree \<Rightarrow> string) \<Rightarrow> gradients \<Rightarrow> real \<Rightarrow> real \<Rightarrow> error + unit" where
  "test_gradient_as_described repr g rtol' atol' =
     and_then (assert_allclose repr rtol' atol' (true_grads_ysave g) (grads_ysave g)) (\<lambda>_.
       assert_allclose repr rtol' atol' (true_grads_Esave g) (grads_Esave g))"

text \<open>
  Gradients of the final state that agree, and gradients of the expectation values that
  differ by three orders of magnitude.
\<close>

definition wrong_Esave_gradients :: gradients where
  "wrong_Esave_gradients =
     \<lparr>true_grads_ysave = [[1]], grads_ysave = [[1]], true_grads_Esave = [[1]],
      grads_Esave = [[1000]]\<rparr>"

section \<open>Vocabulary of the statements\<close>

text \<open>The entry of an array at an index; a value that is not an array has none.\<close>

fun entries :: "'a val \<Rightarrow> nat list \<Rightarrow> 'a option" where
  "entries (Arr s g) idx = Some (g idx)"
| "entries v idx = None"

text \<open>
  A result has the signature \<open>sig\<close> when its leaves carry the names of \<open>sig\<close>, in order,
  and every leaf of a vectorized field is an array of the shape \<open>sig\<close> gives it.
\<close>

definition has_signature :: "'a result \<Rightarrow> (string \<times> nat list) list \<Rightarrow> bool" where
  "has_signature r sig =
     list_all2 (\<lambda>nv ns.
        fst nv = fst ns \<and>
        (out_axes (fst nv) \<noteq> None \<longrightarrow> is_array (snd nv) \<and> shape_of (snd nv) = snd ns)) r sig"

text \<open>The stacked leaf that \<open>stack_leaf\<close> builds from the traced leaf and the leaves of the slices.\<close>

definition stacked :: "'a val \<Rightarrow> 'a val list \<Rightarrow> 'a val" where
  "stacked v0 leaves = (case v0 of Arr s0 g0 \<Rightarrow> stack s0 g0 leaves | _ \<Rightarrow> v0)"

text \<open>
  The single-trajectory solve is static in its key: for every key of shape \<open>ks\<close>, every
  \<^verbatim>\<open>noclick\<close> flag and every \<^verbatim>\<open>noclick_min_prob\<close> it returns a result of the one signature
  \<open>sig\<close>.  (Under \<^verbatim>\<open>jax.vmap\<close> the function is traced once, so the tree structure and
  the shapes of its output cannot depend on the values mapped over.)
\<close>

definition single_trajectory_static ::
  "'a env \<Rightarrow> 'a val \<Rightarrow> 'a val list \<Rightarrow> 'a val \<Rightarrow> 'a val \<Rightarrow> 'a val list option \<Rightarrow> Method \<Rightarrow>
   gradient option \<Rightarrow> options \<Rightarrow> nat list \<Rightarrow> (string \<times> nat list) list \<Rightarrow> bool" where
  "single_trajectory_static env H Ls psi0 tsave exp_ops m g opts ks sig \<longleftrightarrow>
     (\<forall>key nc p. is_array key \<and> shape_of key = ks \<longrightarrow>
        (\<exists>r. jssesolve_single_trajectory env H Ls psi0 tsave key nc p exp_ops m g opts = Inr r
             \<and> has_signature r sig))"

text \<open>The leaf that \<open>concatenate_results\<close> builds for a vectorized field.\<close>

definition prepended :: "'a val \<Rightarrow> 'a val \<Rightarrow> 'a val" where
  "prepended leaf1 leaf2 =
     (case leaf1 of
        Arr s1 g1 \<Rightarrow>
          (case leaf2 of
             Arr s2 g2 \<Rightarrow>
               Arr (Suc (hd s2) # s1)
                 (\<lambda>idx. case idx of
                    [] \<Rightarrow> g1 []
                  | i # rest \<Rightarrow> if i < 1 then g1 rest else g2 ((i - 1) # rest))
           | _ \<Rightarrow> leaf1)
      | _ \<Rightarrow> leaf1)"

section \<open>Example inputs\<close>

text \<open>Concrete inputs on which the theorems below are evaluated.\<close>

definition default_adaptive :: adaptive where
  "default_adaptive =
     \<lparr>rtol = 1 / 1000000, atol = 1 / 1000000, safety_factor = 9 / 10, min_factor = 1 / 5,
      max_factor = 5, max_steps = 100000\<rparr>"

definition default_options :: options where
  "default_options =
     \<lparr>save_states = True, cartesian_batching = True, t0 = None, save_extra = None,
      nmaxclick = 10000\<rparr>"

text \<open>
  An environment whose conversions and checks accept every value unchanged, whose objects
  have a class and the three functions \<^verbatim>\<open>__eq__\<close>, \<^verbatim>\<open>__hash__\<close> and \<^verbatim>\<open>__repr__\<close> from outside
  \<^verbatim>\<open>method.py\<close>, and whose integrator records, in the single entry of its \<^verbatim>\<open>_saved\<close> leaf,
  the key it was given, the first entry of \<open>H\<close> and of the first jump operator, and the
  \<^verbatim>\<open>noclick\<close> flag.
\<close>

fun entry :: "nat val \<Rightarrow> nat list \<Rightarrow> nat" where
  "entry (Arr s g) idx = g idx"
| "entry v idx = 0"

definition example_object_attrs :: "Method \<Rightarrow> string \<Rightarrow> attr option" where
  "example_object_attrs m a =
     (if a = ''__class__'' then Some (AClasses [cls_name m])
      else if a \<in> {''__eq__'', ''__hash__'', ''__repr__''} then Some (AFunction ''Module'' a)
      else None)"

definition example_env :: "nat env" where
  "example_env =
     \<lparr>astimeqarray = Inr, asqarray = Inr, asarray = Inr,
      integrator_run = (\<lambda>c ts y0 m g opts H Ls Es key nc p.
        [(''tsave'', ts), (''method'', VMethod m), (''gradient'', VGradient g),
         (''options'', VOptions opts),
         (''_saved'', Arr [] (\<lambda>idx. entry key [] + 10 * entry H [0, 0]
                                    + 100 * (case Ls of [] \<Rightarrow> 0 | L # _ \<Rightarrow> entry L [0, 0])
                                    + (if nc then 1000 else 0))),
         (''infos'', Arr [] (\<lambda>idx. if p = 0 then 0 else 1)),
         (''keys'', key)]),
      final_state_norm = (\<lambda>r. 1 / 2),
      check_times = (\<lambda>t name. Inr t),
      check_options = (\<lambda>opts name. Inr ()),
      initialise = (\<lambda>opts. opts),
      object_attrs = example_object_attrs\<rparr>"

text \<open>The signature of the results of the example integrator, for scalar keys.\<close>

definition example_sig :: "(string \<times> nat list) list" where
  "example_sig =
     [(''tsave'', []), (''method'', []), (''gradient'', []), (''options'', []),
      (''_saved'', []), (''infos'', []), (''keys'', [])]"

definition example_H :: "nat val" where
  "example_H = Arr [2, 2] (\<lambda>idx. 1)"

definition example_L :: "nat val" where
  "example_L = Arr [2, 2] (\<lambda>idx. 2)"

definition example_psi0 :: "nat val" where
  "example_psi0 = Arr [2, 1] (\<lambda>idx. 0)"

definition example_tsave :: "nat val" where
  "example_tsave = Arr [3] (\<lambda>idx. hd idx)"

definition example_keys :: "nat val" where
  "example_keys = Arr [2] (\<lambda>idx. 5 + hd idx)"


section \<open>Properties of method.py\<close>

lemma isinstance_Some:
  "isinstance (Some g) cs = (\<exists>c\<in>set cs. c = type_name g \<or> c \<in> set (bases g))"
  by (simp add: list_ex_iff)

lemma and_then_Inr [simp]: "and_then (Inr y) f = f y"
  by (simp add: and_then_def)

lemma and_then_Inl [simp]: "and_then (Inl e) f = Inl e"
  by (simp add: and_then_def)

section \<open>Properties of jssesolve.py\<close>

subsection \<open>The argument checks\<close>







subsection \<open>The vectorized map\<close>

lemma collect_Inr: "collect (map (\<lambda>x. Inr (h x)) xs) = Inr (map h xs)"
  by (induction xs) simp_all

lemma collect_Inr_iff:
  "(\<forall>x\<in>set xs. \<exists>y. f x = Inr y) \<Longrightarrow> collect (map f xs) = Inr (map (\<lambda>x. projr (f x)) xs)"
  by (induction xs) auto

lemma has_signature_names: "has_signature r sig \<Longrightarrow> map fst r = map fst sig"
  unfolding has_signature_def
  by (induction r sig rule: list_all2_induct) auto

lemma has_signature_length: "has_signature r sig \<Longrightarrow> length r = length sig"
  unfolding has_signature_def by (rule list_all2_lengthD)

lemma has_signature_nth:
  "has_signature r sig \<Longrightarrow> j < length sig \<Longrightarrow> out_axes (fst (sig ! j)) \<noteq> None \<Longrightarrow>
   is_array (snd (r ! j)) \<and> shape_of (snd (r ! j)) = snd (sig ! j) \<and> fst (r ! j) = fst (sig ! j)"
  unfolding has_signature_def
  by (auto simp: list_all2_conv_all_nth)

lemma stack_leaf_None: "out_axes (fst nv) = None \<Longrightarrow> stack_leaf out_axes nv leaves = Inr nv"
  by (simp add: stack_leaf_def)

lemma out_axes_cases: "out_axes name = None \<or> out_axes name = Some 0"
  by (simp add: out_axes_def)

lemma stack_leaf_Some:
  assumes a: "out_axes (fst nv) \<noteq> None" and b: "is_array (snd nv)"
  shows "stack_leaf out_axes nv leaves = Inr (fst nv, stacked (snd nv) leaves)"
    and "shape_of (stacked (snd nv) leaves) = length leaves # shape_of (snd nv)"
    and "i < length leaves \<Longrightarrow> is_array (leaves ! i) \<Longrightarrow>
         entries (stacked (snd nv) leaves) (i # idx) = entries (leaves ! i) idx"
proof -
  from b obtain s0 g0 where s: "snd nv = Arr s0 g0" by (cases "snd nv") auto
  from a have o: "out_axes (fst nv) = Some 0" using out_axes_cases [of "fst nv"] by auto
  show "stack_leaf out_axes nv leaves = Inr (fst nv, stacked (snd nv) leaves)"
    using s o by (simp add: stack_leaf_def stacked_def)
  show "shape_of (stacked (snd nv) leaves) = length leaves # shape_of (snd nv)"
    by (simp add: stacked_def s)
  show "entries (stacked (snd nv) leaves) (i # idx) = entries (leaves ! i) idx"
    if "i < length leaves" "is_array (leaves ! i)"
    using that by (cases "leaves ! i") (simp_all add: stacked_def s)
qed

lemma column_nth: "i < length rs \<Longrightarrow> column j rs ! i = snd (rs ! i ! j)"
  by (simp add: column_def)

lemma vmap_Inr:
  assumes sz: "axis_size in_axes args = Inr n"
    and run: "\<And>i. i = 0 \<or> i < n \<Longrightarrow> f (slice_args in_axes args i) = Inr (F i)"
    and names: "\<And>i. i < n \<Longrightarrow> map fst (F i) = map fst (F 0)"
    and arrs: "\<And>j. j < length (F 0) \<Longrightarrow> out_axes (fst (F 0 ! j)) \<noteq> None \<Longrightarrow>
                 is_array (snd (F 0 ! j))"
  shows "\<exists>r. vmap f in_axes out_axes args = Inr r \<and> map fst r = map fst (F 0) \<and>
         (\<forall>j<length (F 0).
            (out_axes (fst (F 0 ! j)) = None \<longrightarrow> snd (r ! j) = snd (F 0 ! j)) \<and>
            (out_axes (fst (F 0 ! j)) \<noteq> None \<longrightarrow>
               shape_of (snd (r ! j)) = n # shape_of (snd (F 0 ! j)) \<and>
               (\<forall>i<n. \<forall>idx. is_array (snd (F i ! j)) \<longrightarrow>
                  entries (snd (r ! j)) (i # idx) = entries (snd (F i ! j)) idx)))"
proof -
  define rs where "rs = map F [0..<n]"
  define g where "g = (\<lambda>jnv. stack_leaf out_axes (snd jnv) (column (fst jnv) rs))"
  define r where "r = map (\<lambda>x. projr (g x)) (enumerate 0 (F 0))"
  have len: "length rs = n" by (simp add: rs_def)
  have cl: "\<And>j. length (column j rs) = n" by (simp add: column_def len)
  have cn: "\<And>i j. i < n \<Longrightarrow> column j rs ! i = snd (F i ! j)"
    by (simp add: column_nth len rs_def)
  have gsplit: "(\<lambda>(j, nv). stack_leaf out_axes nv (column j rs)) = g"
    by (simp add: g_def fun_eq_iff)
  have c1: "collect (map (\<lambda>i. f (slice_args in_axes args i)) [0..<n]) = Inr rs"
  proof -
    have m: "map (\<lambda>i. f (slice_args in_axes args i)) [0..<n] = map (\<lambda>i. Inr (F i)) [0..<n]"
      by (rule map_cong) (simp_all add: run)
    show ?thesis unfolding m by (simp add: collect_Inr rs_def)
  qed
  have all: "list_all (\<lambda>r. map fst r = map fst (F 0)) rs"
    unfolding list_all_iff
  proof
    fix r assume "r \<in> set rs"
    then obtain i where i: "i < n" "r = F i" by (auto simp: rs_def)
    from i(1) have "map fst (F i) = map fst (F 0)" by (rule names)
    then show "map fst r = map fst (F 0)" by (simp only: i(2))
  qed
  have gN: "\<And>j. j < length (F 0) \<Longrightarrow> out_axes (fst (F 0 ! j)) = None \<Longrightarrow>
      g (j, F 0 ! j) = Inr (F 0 ! j)"
    by (simp add: g_def stack_leaf_None)
  have gS: "\<And>j. j < length (F 0) \<Longrightarrow> out_axes (fst (F 0 ! j)) \<noteq> None \<Longrightarrow>
      g (j, F 0 ! j) = Inr (fst (F 0 ! j), stacked (snd (F 0 ! j)) (column j rs))"
    by (simp add: g_def stack_leaf_Some(1) arrs)
  have ok: "\<forall>x\<in>set (enumerate 0 (F 0)). \<exists>y. g x = Inr y"
  proof
    fix x assume "x \<in> set (enumerate 0 (F 0))"
    then have x: "fst x < length (F 0)" "x = (fst x, F 0 ! fst x)"
      by (auto simp: in_set_enumerate_eq)
    show "\<exists>y. g x = Inr y"
    proof (cases "out_axes (fst (F 0 ! fst x)) = None")
      case True
      from gN [OF x(1) True] x(2) show ?thesis by metis
    next
      case False
      from gS [OF x(1) False] x(2) show ?thesis by metis
    qed
  qed
  have c2: "collect (map g (enumerate 0 (F 0))) = Inr r"
    using collect_Inr_iff [OF ok] by (simp add: r_def)
  have v: "vmap f in_axes out_axes args = Inr r"
    by (simp add: vmap_def sz run [of 0] c1 all gsplit c2)
  have lr: "length r = length (F 0)" by (simp add: r_def)
  have rj: "\<And>j. j < length (F 0) \<Longrightarrow> r ! j = projr (g (j, F 0 ! j))"
    by (simp add: r_def nth_enumerate_eq)
  have fj: "\<And>j. j < length (F 0) \<Longrightarrow> fst (r ! j) = fst (F 0 ! j)"
  proof -
    fix j assume j: "j < length (F 0)"
    show "fst (r ! j) = fst (F 0 ! j)"
    proof (cases "out_axes (fst (F 0 ! j)) = None")
      case True
      then show ?thesis by (simp add: rj [OF j] gN [OF j True])
    next
      case False
      show ?thesis by (simp add: rj [OF j] gS [OF j False])
    qed
  qed
  have nm: "map fst r = map fst (F 0)"
    by (rule nth_equalityI) (simp_all add: lr fj)
  show ?thesis
  proof (intro exI conjI allI impI)
    show "vmap f in_axes out_axes args = Inr r" by (rule v)
    show "map fst r = map fst (F 0)" by (rule nm)
  next
    fix j assume j: "j < length (F 0)" and o: "out_axes (fst (F 0 ! j)) = None"
    show "snd (r ! j) = snd (F 0 ! j)" by (simp add: rj [OF j] gN [OF j o])
  next
    fix j assume j: "j < length (F 0)" and o: "out_axes (fst (F 0 ! j)) \<noteq> None"
    show "shape_of (snd (r ! j)) = n # shape_of (snd (F 0 ! j))"
      by (simp add: rj [OF j] gS [OF j o] stack_leaf_Some(2) [OF o arrs [OF j o]] cl)
  next
    fix j i idx assume j: "j < length (F 0)" and o: "out_axes (fst (F 0 ! j)) \<noteq> None"
      and i: "i < n" and a: "is_array (snd (F i ! j))"
    have "entries (stacked (snd (F 0 ! j)) (column j rs)) (i # idx) = entries (column j rs ! i) idx"
      by (rule stack_leaf_Some(3) [OF o arrs [OF j o]]) (simp_all add: cl cn i a)
    then show "entries (snd (r ! j)) (i # idx) = entries (snd (F i ! j)) idx"
      by (simp add: rj [OF j] gS [OF j o] cn [OF i])
  qed
qed

subsection \<open>The trajectory axis\<close>

lemma exp_of_exp_val [simp]: "exp_of (exp_val eo) = eo"
  by (cases eo) simp_all

lemma single_trajectory_on_args:
  "single_trajectory_on env
     [H, VList Ls, psi0, tsave, key, VBool nc, VFloat p, exp_val eo, VMethod m, VGradient g,
      VOptions opts] =
   jssesolve_single_trajectory env H Ls psi0 tsave key nc p eo m g opts"
  by (simp add: single_trajectory_on_def)

lemma static_Inr:
  assumes "single_trajectory_static env H Ls psi0 tsave eo m g opts s sig"
  shows "jssesolve_single_trajectory env H Ls psi0 tsave (Arr s k) nc p eo m g opts =
           Inr (projr (jssesolve_single_trajectory env H Ls psi0 tsave (Arr s k) nc p eo m g opts))"
    and "has_signature
           (projr (jssesolve_single_trajectory env H Ls psi0 tsave (Arr s k) nc p eo m g opts)) sig"
proof -
  from assms obtain r where
    r: "jssesolve_single_trajectory env H Ls psi0 tsave (Arr s k) nc p eo m g opts = Inr r"
      "has_signature r sig"
    unfolding single_trajectory_static_def
    by (metis is_array.simps(1) shape_of.simps(1))
  show "jssesolve_single_trajectory env H Ls psi0 tsave (Arr s k) nc p eo m g opts =
           Inr (projr (jssesolve_single_trajectory env H Ls psi0 tsave (Arr s k) nc p eo m g opts))"
    by (simp add: r(1))
  show "has_signature
           (projr (jssesolve_single_trajectory env H Ls psi0 tsave (Arr s k) nc p eo m g opts)) sig"
    by (simp add: r)
qed

lemma trajectory_vmap:
  fixes k :: "nat list \<Rightarrow> 'a" and nc :: bool and p :: real
  assumes st: "single_trajectory_static env H Ls psi0 tsave eo m g opts s sig"
  defines "T \<equiv> \<lambda>i. projr (jssesolve_single_trajectory env H Ls psi0 tsave
                         (Arr s (\<lambda>idx. k (i # idx))) nc p eo m g opts)"
  shows "\<exists>r. vmap (single_trajectory_on env)
                [None, None, None, None, Some 0, None, None, None, None, None, None] out_axes
                ([H, VList Ls, psi0, tsave] @ [Arr (n # s) k, VBool nc, VFloat p]
                 @ [exp_val eo, VMethod m, VGradient g, VOptions opts]) = Inr r
             \<and> map fst r = map fst sig
             \<and> (\<forall>j<length sig.
                  (out_axes (fst (sig ! j)) = None \<longrightarrow> snd (r ! j) = snd (T 0 ! j)) \<and>
                  (out_axes (fst (sig ! j)) \<noteq> None \<longrightarrow>
                     shape_of (snd (r ! j)) = n # snd (sig ! j) \<and>
                     (\<forall>i<n. \<forall>idx. entries (snd (r ! j)) (i # idx) = entries (snd (T i ! j)) idx)))"
proof -
  let ?ia = "[None, None, None, None, Some 0, None, None, None, None, None, None]"
  let ?args = "[H, VList Ls, psi0, tsave] @ [Arr (n # s) k, VBool nc, VFloat p]
                 @ [exp_val eo, VMethod m, VGradient g, VOptions opts]"
  have sg: "\<And>i. has_signature (T i) sig"
    unfolding T_def by (rule static_Inr(2) [OF st])
  have sz: "axis_size ?ia ?args = Inr n"
    by (simp add: axis_size_def)
  have run: "\<And>i. i = 0 \<or> i < n \<Longrightarrow> single_trajectory_on env (slice_args ?ia ?args i) = Inr (T i)"
    unfolding T_def
    by (simp add: slice_args_def single_trajectory_on_args static_Inr(1) [OF st, symmetric])
  have names: "\<And>i. i < n \<Longrightarrow> map fst (T i) = map fst (T 0)"
    by (simp only: has_signature_names [OF sg])
  have l0: "length (T 0) = length sig" by (rule has_signature_length [OF sg])
  have f0: "\<And>j. j < length sig \<Longrightarrow> fst (T 0 ! j) = fst (sig ! j)"
    using has_signature_names [OF sg [of 0]] l0 by (metis length_map nth_map)
  have arrs: "\<And>j. j < length (T 0) \<Longrightarrow> out_axes (fst (T 0 ! j)) \<noteq> None \<Longrightarrow>
                 is_array (snd (T 0 ! j))"
    using has_signature_nth [OF sg [of 0]] f0 l0 by simp
  from vmap_Inr [of ?ia ?args n "single_trajectory_on env" T, OF sz run names arrs]
  obtain r where r: "vmap (single_trajectory_on env) ?ia out_axes ?args = Inr r"
    "map fst r = map fst (T 0)"
    "\<And>j. j < length (T 0) \<Longrightarrow> out_axes (fst (T 0 ! j)) = None \<Longrightarrow> snd (r ! j) = snd (T 0 ! j)"
    "\<And>j. j < length (T 0) \<Longrightarrow> out_axes (fst (T 0 ! j)) \<noteq> None \<Longrightarrow>
        shape_of (snd (r ! j)) = n # shape_of (snd (T 0 ! j))"
    "\<And>j i idx. j < length (T 0) \<Longrightarrow> out_axes (fst (T 0 ! j)) \<noteq> None \<Longrightarrow> i < n \<Longrightarrow>
        is_array (snd (T i ! j)) \<Longrightarrow>
        entries (snd (r ! j)) (i # idx) = entries (snd (T i ! j)) idx"
    by auto
  show ?thesis
  proof (intro exI conjI allI impI)
    show "vmap (single_trajectory_on env) ?ia out_axes ?args = Inr r" by (rule r(1))
    show "map fst r = map fst sig" by (simp only: r(2) has_signature_names [OF sg])
  next
    fix j assume j: "j < length sig" and o: "out_axes (fst (sig ! j)) = None"
    show "snd (r ! j) = snd (T 0 ! j)" using r(3) [of j] j o l0 f0 by simp
  next
    fix j assume j: "j < length sig" and o: "out_axes (fst (sig ! j)) \<noteq> None"
    show "shape_of (snd (r ! j)) = n # snd (sig ! j)"
      using r(4) [of j] j o l0 f0 has_signature_nth [OF sg [of 0] j o] by simp
  next
    fix j i idx assume j: "j < length sig" and o: "out_axes (fst (sig ! j)) \<noteq> None"
      and i: "i < n"
    show "entries (snd (r ! j)) (i # idx) = entries (snd (T i ! j)) idx"
      using r(5) [of j i idx] j o i l0 f0 has_signature_nth [OF sg [of i] j o] by simp
  qed
qed


lemma concatenate_results_None:
  "out_axes name = None \<Longrightarrow> concatenate_results out_axes name leaf1 leaf2 = Inr leaf1"
  by (simp add: concatenate_results_def)

lemma concatenate_results_Some:
  assumes o: "out_axes name \<noteq> None" and a: "is_array leaf1"
    and sh: "shape_of leaf2 = d # shape_of leaf1"
  shows "concatenate_results out_axes name leaf1 leaf2 = Inr (prepended leaf1 leaf2)"
    and "shape_of (prepended leaf1 leaf2) = Suc d # shape_of leaf1"
    and "entries (prepended leaf1 leaf2) (0 # idx) = entries leaf1 idx"
    and "entries (prepended leaf1 leaf2) (Suc i # idx) = entries leaf2 (i # idx)"
proof -
  from a obtain s1 g1 where l1: "leaf1 = Arr s1 g1" by (cases leaf1) auto
  from sh obtain g2 where l2: "leaf2 = Arr (d # s1) g2" by (cases leaf2) (auto simp: l1)
  show "concatenate_results out_axes name leaf1 leaf2 = Inr (prepended leaf1 leaf2)"
    using o by (auto simp: concatenate_results_def prepended_def l1 l2 fun_eq_iff split: list.splits)
  show "shape_of (prepended leaf1 leaf2) = Suc d # shape_of leaf1"
    by (simp add: prepended_def l1 l2)
  show "entries (prepended leaf1 leaf2) (0 # idx) = entries leaf1 idx"
    by (simp add: prepended_def l1 l2)
  show "entries (prepended leaf1 leaf2) (Suc i # idx) = entries leaf2 (i # idx)"
    by (simp add: prepended_def l1 l2)
qed

lemma tree_map_concatenate:
  assumes names: "map fst nr = map fst cr"
    and arrs: "\<And>j. j < length nr \<Longrightarrow> out_axes (fst (nr ! j)) \<noteq> None \<Longrightarrow>
        is_array (snd (nr ! j)) \<and> shape_of (snd (cr ! j)) = d # shape_of (snd (nr ! j))"
  shows "\<exists>r. tree_map_with_path (concatenate_results out_axes) nr cr = Inr r
           \<and> map fst r = map fst nr
           \<and> (\<forall>j<length nr.
                (out_axes (fst (nr ! j)) = None \<longrightarrow> snd (r ! j) = snd (nr ! j)) \<and>
                (out_axes (fst (nr ! j)) \<noteq> None \<longrightarrow>
                   shape_of (snd (r ! j)) = Suc d # shape_of (snd (nr ! j)) \<and>
                   (\<forall>idx. entries (snd (r ! j)) (0 # idx) = entries (snd (nr ! j)) idx) \<and>
                   (\<forall>i idx. entries (snd (r ! j)) (Suc i # idx)
                             = entries (snd (cr ! j)) (i # idx))))"
proof -
  define h where "h = (\<lambda>ab :: (string \<times> 'a val) \<times> (string \<times> 'a val).
     and_then (concatenate_results out_axes (fst (fst ab)) (snd (fst ab)) (snd (snd ab)))
       (\<lambda>v. Inr (fst (fst ab), v)))"
  define q where "q = (\<lambda>ab :: (string \<times> 'a val) \<times> (string \<times> 'a val).
     (fst (fst ab), if out_axes (fst (fst ab)) = None then snd (fst ab)
                    else prepended (snd (fst ab)) (snd (snd ab))))"
  define r where "r = map q (zip nr cr)"
  have len: "length cr = length nr" using names by (metis length_map)
  have hsplit: "(\<lambda>((name, leaf1), (_, leaf2)).
      and_then (concatenate_results out_axes name leaf1 leaf2) (\<lambda>v. Inr (name, v))) = h"
    by (simp add: h_def fun_eq_iff)
  have hq: "\<And>j. j < length nr \<Longrightarrow> h (nr ! j, cr ! j) = Inr (q (nr ! j, cr ! j))"
  proof -
    fix j assume j: "j < length nr"
    show "h (nr ! j, cr ! j) = Inr (q (nr ! j, cr ! j))"
    proof (cases "out_axes (fst (nr ! j)) = None")
      case True
      then show ?thesis by (simp add: h_def q_def concatenate_results_None)
    next
      case False
      from arrs [OF j False] have a: "is_array (snd (nr ! j))"
        and sh: "shape_of (snd (cr ! j)) = d # shape_of (snd (nr ! j))" by simp_all
      show ?thesis
        by (simp add: h_def q_def False concatenate_results_Some(1) [OF False a sh])
    qed
  qed
  have "map h (zip nr cr) = map (\<lambda>x. Inr (q x)) (zip nr cr)"
  proof (rule map_cong [OF refl])
    fix x assume "x \<in> set (zip nr cr)"
    then obtain j where "j < length nr" "x = (nr ! j, cr ! j)"
      by (auto simp: set_zip)
    then show "h x = Inr (q x)" using hq by simp
  qed
  then have c: "collect (map h (zip nr cr)) = Inr r"
    by (simp only: collect_Inr r_def)
  have t: "tree_map_with_path (concatenate_results out_axes) nr cr = Inr r"
    by (simp add: tree_map_with_path_def names hsplit c)
  have rj: "\<And>j. j < length nr \<Longrightarrow> r ! j = q (nr ! j, cr ! j)"
    by (simp add: r_def len)
  have lr: "length r = length nr" by (simp add: r_def len)
  have nm: "map fst r = map fst nr"
    by (rule nth_equalityI) (simp_all add: lr rj q_def)
  show ?thesis
  proof (intro exI conjI allI impI)
    show "tree_map_with_path (concatenate_results out_axes) nr cr = Inr r" by (rule t)
    show "map fst r = map fst nr" by (rule nm)
  next
    fix j assume j: "j < length nr" and o: "out_axes (fst (nr ! j)) = None"
    show "snd (r ! j) = snd (nr ! j)" by (simp add: rj [OF j] q_def o)
  next
    fix j assume j: "j < length nr" and o: "out_axes (fst (nr ! j)) \<noteq> None"
    from arrs [OF j o] have a: "is_array (snd (nr ! j))"
      and sh: "shape_of (snd (cr ! j)) = d # shape_of (snd (nr ! j))" by simp_all
    show "shape_of (snd (r ! j)) = Suc d # shape_of (snd (nr ! j))"
      by (simp add: rj [OF j] q_def o concatenate_results_Some(2) [OF o a sh])
  next
    fix j idx assume j: "j < length nr" and o: "out_axes (fst (nr ! j)) \<noteq> None"
    from arrs [OF j o] have a: "is_array (snd (nr ! j))"
      and sh: "shape_of (snd (cr ! j)) = d # shape_of (snd (nr ! j))" by simp_all
    show "entries (snd (r ! j)) (0 # idx) = entries (snd (nr ! j)) idx"
      by (simp add: rj [OF j] q_def o concatenate_results_Some(3) [OF o a sh])
  next
    fix j i idx assume j: "j < length nr" and o: "out_axes (fst (nr ! j)) \<noteq> None"
    from arrs [OF j o] have a: "is_array (snd (nr ! j))"
      and sh: "shape_of (snd (cr ! j)) = d # shape_of (snd (nr ! j))" by simp_all
    show "entries (snd (r ! j)) (Suc i # idx) = entries (snd (cr ! j)) (i # idx)"
      by (simp add: rj [OF j] q_def o concatenate_results_Some(4) [OF o a sh])
  qed
qed


lemma getattr_smart_sampling [simp]:
  "getattr base (Event nm rf b) ''smart_sampling'' = Inr (ABool b)"
  by (simp add: normal_lookup_def)

lemma vectorized_clicks_plain:
  fixes k :: "nat list \<Rightarrow> 'a"
  assumes st: "single_trajectory_static env H Ls psi0 tsave eo (Event nm rf False) g opts s sig"
  defines "T \<equiv> \<lambda>i. projr (jssesolve_single_trajectory env H Ls psi0 tsave
                         (Arr s (\<lambda>idx. k (i # idx))) False 0 eo (Event nm rf False) g opts)"
  shows "\<exists>r. vectorized_clicks_jssesolve env H Ls psi0 tsave (Arr (n # s) k) eo
                (Event nm rf False) g opts = Inr r
             \<and> map fst r = map fst sig
             \<and> (\<forall>j<length sig.
                  (out_axes (fst (sig ! j)) = None \<longrightarrow> snd (r ! j) = snd (T 0 ! j)) \<and>
                  (out_axes (fst (sig ! j)) \<noteq> None \<longrightarrow>
                     shape_of (snd (r ! j)) = n # snd (sig ! j) \<and>
                     (\<forall>i<n. \<forall>idx. entries (snd (r ! j)) (i # idx) = entries (snd (T i ! j)) idx)))"
  unfolding T_def
  using trajectory_vmap [OF st, where k = k and nc = False and p = 0 and n = n]
  by (simp add: vectorized_clicks_jssesolve_def Let_def del: getattr.simps)

lemma vectorized_clicks_smart:
  fixes k :: "nat list \<Rightarrow> 'a"
  assumes st: "single_trajectory_static env H Ls psi0 tsave eo (Event nm rf True) g opts s sig"
  defines "N \<equiv> projr (jssesolve_single_trajectory env H Ls psi0 tsave
                   (Arr s (\<lambda>idx. k (0 # idx))) True 0 eo (Event nm rf True) g opts)"
  defines "C \<equiv> \<lambda>i. projr (jssesolve_single_trajectory env H Ls psi0 tsave
                   (Arr s (\<lambda>idx. k (Suc i # idx))) False ((final_state_norm env N)\<^sup>2) eo
                   (Event nm rf True) g opts)"
  shows "\<exists>r. vectorized_clicks_jssesolve env H Ls psi0 tsave (Arr (Suc d # s) k) eo
                (Event nm rf True) g opts = Inr r
             \<and> map fst r = map fst sig
             \<and> (\<forall>j<length sig.
                  (out_axes (fst (sig ! j)) = None \<longrightarrow> snd (r ! j) = snd (N ! j)) \<and>
                  (out_axes (fst (sig ! j)) \<noteq> None \<longrightarrow>
                     shape_of (snd (r ! j)) = Suc d # snd (sig ! j) \<and>
                     (\<forall>idx. entries (snd (r ! j)) (0 # idx) = entries (snd (N ! j)) idx) \<and>
                     (\<forall>i<d. \<forall>idx. entries (snd (r ! j)) (Suc i # idx)
                                    = entries (snd (C i ! j)) idx)))"
proof -
  let ?m = "Event nm rf True"
  let ?ia = "[None, None, None, None, Some 0, None, None, None, None, None, None]"
  define k' where "k' = (\<lambda>idx. case idx of [] \<Rightarrow> k [] | i # rest \<Rightarrow> k (Suc i # rest))"
  define p where "p = (final_state_norm env N)\<^sup>2"
  have k'i: "\<And>i. (\<lambda>idx. k' (i # idx)) = (\<lambda>idx. k (Suc i # idx))"
    by (simp add: k'_def)
  have sN: "has_signature N sig" unfolding N_def by (rule static_Inr(2) [OF st])
  have eN: "jssesolve_single_trajectory env H Ls psi0 tsave (Arr s (\<lambda>idx. k (0 # idx))) True 0 eo
              ?m g opts = Inr N"
    unfolding N_def by (rule static_Inr(1) [OF st])
  have sC: "\<And>i. has_signature (C i) sig" unfolding C_def by (rule static_Inr(2) [OF st])
  from trajectory_vmap [OF st, where k = k' and nc = False and p = p and n = d]
  obtain cr where cr: "vmap (single_trajectory_on env) ?ia out_axes
        ([H, VList Ls, psi0, tsave] @ [Arr (d # s) k', VBool False, VFloat p]
         @ [exp_val eo, VMethod ?m, VGradient g, VOptions opts]) = Inr cr"
      "map fst cr = map fst sig"
      "\<And>j. j < length sig \<Longrightarrow> out_axes (fst (sig ! j)) \<noteq> None \<Longrightarrow>
         shape_of (snd (cr ! j)) = d # snd (sig ! j)"
      "\<And>j i idx. j < length sig \<Longrightarrow> out_axes (fst (sig ! j)) \<noteq> None \<Longrightarrow> i < d \<Longrightarrow>
         entries (snd (cr ! j)) (i # idx) = entries (snd (C i ! j)) idx"
    unfolding k'i C_def p_def by auto
  have lN: "length N = length sig" by (rule has_signature_length [OF sN])
  have fN: "\<And>j. j < length sig \<Longrightarrow> fst (N ! j) = fst (sig ! j)"
    using has_signature_names [OF sN] lN by (metis length_map nth_map)
  have names: "map fst N = map fst cr"
    by (simp only: cr(2) has_signature_names [OF sN])
  have arrs: "\<And>j. j < length N \<Longrightarrow> out_axes (fst (N ! j)) \<noteq> None \<Longrightarrow>
        is_array (snd (N ! j)) \<and> shape_of (snd (cr ! j)) = d # shape_of (snd (N ! j))"
    using has_signature_nth [OF sN] cr(3) fN lN by simp
  from tree_map_concatenate [OF names arrs]
  obtain r where r: "tree_map_with_path (concatenate_results out_axes) N cr = Inr r"
      "map fst r = map fst N"
      "\<And>j. j < length N \<Longrightarrow> out_axes (fst (N ! j)) = None \<Longrightarrow> snd (r ! j) = snd (N ! j)"
      "\<And>j. j < length N \<Longrightarrow> out_axes (fst (N ! j)) \<noteq> None \<Longrightarrow>
         shape_of (snd (r ! j)) = Suc d # shape_of (snd (N ! j))"
      "\<And>j idx. j < length N \<Longrightarrow> out_axes (fst (N ! j)) \<noteq> None \<Longrightarrow>
         entries (snd (r ! j)) (0 # idx) = entries (snd (N ! j)) idx"
      "\<And>j i idx. j < length N \<Longrightarrow> out_axes (fst (N ! j)) \<noteq> None \<Longrightarrow>
         entries (snd (r ! j)) (Suc i # idx) = entries (snd (cr ! j)) (i # idx)"
    by auto
  have v: "vectorized_clicks_jssesolve env H Ls psi0 tsave (Arr (Suc d # s) k) eo ?m g opts = Inr r"
    using cr(1) r(1)
    by (simp add: vectorized_clicks_jssesolve_def Let_def single_trajectory_on_args eN k'_def p_def
        del: getattr.simps)
  show ?thesis
  proof (intro exI conjI allI impI)
    show "vectorized_clicks_jssesolve env H Ls psi0 tsave (Arr (Suc d # s) k) eo ?m g opts = Inr r"
      by (rule v)
    show "map fst r = map fst sig" by (simp only: r(2) has_signature_names [OF sN])
  next
    fix j assume j: "j < length sig" and o: "out_axes (fst (sig ! j)) = None"
    show "snd (r ! j) = snd (N ! j)" using r(3) [of j] j o lN fN by simp
  next
    fix j assume j: "j < length sig" and o: "out_axes (fst (sig ! j)) \<noteq> None"
    show "shape_of (snd (r ! j)) = Suc d # snd (sig ! j)"
      using r(4) [of j] j o lN fN has_signature_nth [OF sN j o] by simp
  next
    fix j idx assume j: "j < length sig" and o: "out_axes (fst (sig ! j)) \<noteq> None"
    show "entries (snd (r ! j)) (0 # idx) = entries (snd (N ! j)) idx"
      using r(5) [of j idx] j o lN fN by simp
  next
    fix j i idx assume j: "j < length sig" and o: "out_axes (fst (sig ! j)) \<noteq> None"
      and i: "i < d"
    show "entries (snd (r ! j)) (Suc i # idx) = entries (snd (C i ! j)) idx"
      using r(6) [of j i idx] cr(4) [OF j o i, of idx] j o lN fN by simp
  qed
qed

lemma vectorized_clicks_smart_trajectories:
  fixes k :: "nat list \<Rightarrow> 'a"
  assumes st: "single_trajectory_static env H Ls psi0 tsave exp_ops (Event nm rf True) gradient
                 options s sig"
    and keys: "keys = Arr (Suc d # s) k"
  shows "\<exists>noclick r.
      jssesolve_single_trajectory env H Ls psi0 tsave (slice 0 keys) True 0 exp_ops
          (Event nm rf True) gradient options = Inr noclick
    \<and> vectorized_clicks_jssesolve env H Ls psi0 tsave keys exp_ops (Event nm rf True) gradient
          options = Inr r
    \<and> map fst r = map fst noclick
    \<and> (\<forall>j<length r.
         (out_axes (fst (r ! j)) = None \<longrightarrow> snd (r ! j) = snd (noclick ! j))
       \<and> (out_axes (fst (r ! j)) \<noteq> None \<longrightarrow>
            shape_of (snd (r ! j)) = Suc d # shape_of (snd (noclick ! j))
          \<and> (\<forall>idx. entries (snd (r ! j)) (0 # idx) = entries (snd (noclick ! j)) idx)
          \<and> (\<forall>i<d. \<exists>click.
               jssesolve_single_trajectory env H Ls psi0 tsave (slice (Suc i) keys) False
                   ((final_state_norm env noclick)\<^sup>2) exp_ops (Event nm rf True) gradient
                   options = Inr click
             \<and> (\<forall>idx. entries (snd (r ! j)) (Suc i # idx) = entries (snd (click ! j)) idx))))"
proof -
  let ?m = "Event nm rf True"
  define N where "N = projr (jssesolve_single_trajectory env H Ls psi0 tsave
                   (Arr s (\<lambda>idx. k (0 # idx))) True 0 exp_ops ?m gradient options)"
  define C where "C = (\<lambda>i. projr (jssesolve_single_trajectory env H Ls psi0 tsave
                   (Arr s (\<lambda>idx. k (Suc i # idx))) False ((final_state_norm env N)\<^sup>2) exp_ops
                   ?m gradient options))"
  have eN: "jssesolve_single_trajectory env H Ls psi0 tsave (slice 0 keys) True 0 exp_ops ?m
              gradient options = Inr N"
    unfolding N_def keys using static_Inr(1) [OF st] by simp
  have eC: "\<And>i. jssesolve_single_trajectory env H Ls psi0 tsave (slice (Suc i) keys) False
              ((final_state_norm env N)\<^sup>2) exp_ops ?m gradient options = Inr (C i)"
    unfolding C_def keys using static_Inr(1) [OF st] by simp
  have sN: "has_signature N sig" unfolding N_def by (rule static_Inr(2) [OF st])
  from vectorized_clicks_smart [OF st, where k = k and d = d]
  obtain r where v: "vectorized_clicks_jssesolve env H Ls psi0 tsave (Arr (Suc d # s) k) exp_ops ?m
        gradient options = Inr r"
    and nm: "map fst r = map fst sig"
    and every: "\<forall>j<length sig.
         (out_axes (fst (sig ! j)) = None \<longrightarrow> snd (r ! j) = snd (N ! j)) \<and>
         (out_axes (fst (sig ! j)) \<noteq> None \<longrightarrow>
            shape_of (snd (r ! j)) = Suc d # snd (sig ! j) \<and>
            (\<forall>idx. entries (snd (r ! j)) (0 # idx) = entries (snd (N ! j)) idx) \<and>
            (\<forall>i<d. \<forall>idx. entries (snd (r ! j)) (Suc i # idx) = entries (snd (C i ! j)) idx))"
    unfolding N_def C_def by (elim exE conjE)
  have r: "vectorized_clicks_jssesolve env H Ls psi0 tsave keys exp_ops ?m gradient
        options = Inr r"
      "map fst r = map fst sig"
      "\<And>j. j < length sig \<Longrightarrow> out_axes (fst (sig ! j)) = None \<Longrightarrow> snd (r ! j) = snd (N ! j)"
      "\<And>j. j < length sig \<Longrightarrow> out_axes (fst (sig ! j)) \<noteq> None \<Longrightarrow>
         shape_of (snd (r ! j)) = Suc d # snd (sig ! j)"
      "\<And>j idx. j < length sig \<Longrightarrow> out_axes (fst (sig ! j)) \<noteq> None \<Longrightarrow>
         entries (snd (r ! j)) (0 # idx) = entries (snd (N ! j)) idx"
      "\<And>j i idx. j < length sig \<Longrightarrow> out_axes (fst (sig ! j)) \<noteq> None \<Longrightarrow> i < d \<Longrightarrow>
         entries (snd (r ! j)) (Suc i # idx) = entries (snd (C i ! j)) idx"
    using v nm every unfolding keys by blast+
  have lr: "length r = length sig" using r(2) by (metis length_map)
  have fr: "\<And>j. j < length sig \<Longrightarrow> fst (r ! j) = fst (sig ! j)"
    using r(2) lr by (metis length_map nth_map)
  show ?thesis
  proof (rule exI [of _ N], rule exI [of _ r], intro conjI allI impI)
    show "jssesolve_single_trajectory env H Ls psi0 tsave (slice 0 keys) True 0 exp_ops ?m
              gradient options = Inr N" by (rule eN)
    show "vectorized_clicks_jssesolve env H Ls psi0 tsave keys exp_ops ?m gradient options = Inr r"
      by (rule r(1))
    show "map fst r = map fst N" by (simp only: r(2) has_signature_names [OF sN])
  next
    fix j assume j: "j < length r" and o: "out_axes (fst (r ! j)) = None"
    show "snd (r ! j) = snd (N ! j)" using r(3) [of j] j o lr fr by simp
  next
    fix j assume j: "j < length r" and o: "out_axes (fst (r ! j)) \<noteq> None"
    have j': "j < length sig" and o': "out_axes (fst (sig ! j)) \<noteq> None"
      using j o lr fr by simp_all
    show "shape_of (snd (r ! j)) = Suc d # shape_of (snd (N ! j))"
      using r(4) [OF j' o'] has_signature_nth [OF sN j' o'] by simp
  next
    fix j idx assume j: "j < length r" and o: "out_axes (fst (r ! j)) \<noteq> None"
    show "entries (snd (r ! j)) (0 # idx) = entries (snd (N ! j)) idx"
      using r(5) [of j idx] j o lr fr by simp
  next
    fix j i assume j: "j < length r" and o: "out_axes (fst (r ! j)) \<noteq> None" and i: "i < d"
    have j': "j < length sig" and o': "out_axes (fst (sig ! j)) \<noteq> None"
      using j o lr fr by simp_all
    show "\<exists>click.
        jssesolve_single_trajectory env H Ls psi0 tsave (slice (Suc i) keys) False
            ((final_state_norm env N)\<^sup>2) exp_ops ?m gradient options = Inr click
      \<and> (\<forall>idx. entries (snd (r ! j)) (Suc i # idx) = entries (snd (click ! j)) idx)"
      using eC [of i] r(6) [OF j' o' i] by blast
  qed
qed


lemma example_static:
  "single_trajectory_static example_env H Ls psi0 tsave eo (Event (Tsit5 a) rf b) None opts []
     example_sig"
  by (simp add: single_trajectory_static_def jssesolve_single_trajectory_def
      assert_method_supported_def integrator_constructors_def assert_supports_gradient_def
      example_env_def has_signature_def example_sig_def out_axes_def)

lemma example_single:
  "jssesolve_single_trajectory example_env H Ls psi0 tsave key nc p
     None (Event (Tsit5 default_adaptive) None b) None default_options =
   Inr (integrator_run example_env ''jssesolve_event_tsit5_integrator_constructor'' tsave psi0
          (Event (Tsit5 default_adaptive) None b) None default_options H Ls None key nc p)"
  by (simp add: jssesolve_single_trajectory_def assert_method_supported_def
      integrator_constructors_def assert_supports_gradient_def)

subsection \<open>The claims\<close>

text \<open>
  C5.  \<^verbatim>\<open>assert_supports_gradient\<close> raises a \<^verbatim>\<open>ValueError\<close> naming the method class, the
  class of the gradient and the supported gradient classes exactly when the gradient is
  not \<^verbatim>\<open>None\<close> and is not an instance of a class of \<^verbatim>\<open>SUPPORTED_GRADIENT\<close>; a supported
  gradient (and \<^verbatim>\<open>None\<close>) passes.  In \<^verbatim>\<open>_jssesolve_single_trajectory\<close> the check comes
  before the integrator constructor is called: for an \<^verbatim>\<open>Event\<close> method whose no-click
  method has a constructor in the table, an unsupported gradient gives that
  \<^verbatim>\<open>ValueError\<close> whatever the integrator is, and a supported one reaches the integrator.
\<close>

theorem assert_supports_gradient_checks:
  fixes env :: "'a env"
  shows "(\<not> supports_gradient m (Some g) \<longrightarrow>
            assert_supports_gradient m (Some g) =
              Inl (ValueError (''Method `'' @ cls_name m @ ''` does not support gradient `''
                @ type_name g @ ''` (supported gradient types: ''
                @ support_str (SUPPORTED_GRADIENT m) @ '').'')))
       \<and> (supports_gradient m (Some g) \<longrightarrow> assert_supports_gradient m (Some g) = Inr ())
       \<and> assert_supports_gradient m None = Inr ()
       \<and> (map_of integrator_constructors (cls_name nm) = Some c \<longrightarrow>
            jssesolve_single_trajectory env H Ls psi0 tsave key nc p eo (Event nm rf ss) (Some g)
                opts =
              (if supports_gradient (Event nm rf ss) (Some g) then
                 Inr (integrator_run env c tsave psi0 (Event nm rf ss) (Some g) opts H Ls eo key
                        nc p)
               else
                 Inl (ValueError (''Method `Event` does not support gradient `''
                   @ type_name g @ ''` (supported gradient types: ''
                   @ ''`Autograd`, `CheckpointAutograd`, `ForwardAutograd`).''))))"
  by (simp add: assert_supports_gradient_def jssesolve_single_trajectory_def
      assert_method_supported_def support_str_def)

theorem assert_supports_gradient_checks_witness:
  "\<not> supports_gradient Expm (Some CheckpointAutograd)
   \<and> assert_supports_gradient Expm (Some CheckpointAutograd) =
       Inl (ValueError
         ''Method `Expm` does not support gradient `CheckpointAutograd` (supported gradient types: `Autograd`).'')
   \<and> supports_gradient (Euler (1 / 10)) (Some CheckpointAutograd)
   \<and> assert_supports_gradient (Euler (1 / 10)) (Some CheckpointAutograd) = Inr ()
   \<and> map_of integrator_constructors (cls_name (Euler (1 / 10))) =
       Some ''jssesolve_event_euler_integrator_constructor''
   \<and> jssesolve_single_trajectory example_env VNone [] VNone VNone VNone False 0 None
        (Event (Euler (1 / 10)) None False) (Some (GradientObj ''Gradient'' [])) default_options =
       Inl (ValueError
         ''Method `Event` does not support gradient `Gradient` (supported gradient types: `Autograd`, `CheckpointAutograd`, `ForwardAutograd`).'')"
  using assert_supports_gradient_checks [of Expm CheckpointAutograd "Euler (1 / 10)"
      "''jssesolve_event_euler_integrator_constructor''" example_env VNone "[]" VNone VNone VNone
      False 0 None None False default_options]
    assert_supports_gradient_checks [of "Euler (1 / 10)" CheckpointAutograd "Euler (1 / 10)"
      "''jssesolve_event_euler_integrator_constructor''" example_env VNone "[]" VNone VNone VNone
      False 0 None None False default_options]
    assert_supports_gradient_checks [of Expm "GradientObj ''Gradient'' []" "Euler (1 / 10)"
      "''jssesolve_event_euler_integrator_constructor''" example_env VNone "[]" VNone VNone VNone
      False 0 None None False default_options]
  by (simp add: supports_gradient_def CheckpointAutograd_def integrator_constructors_def
      support_str_def)

text \<open>
  C10.  For an attribute name that is not defined on an \<^verbatim>\<open>Event\<close> object, that is, a name
  that the ordinary lookup does not find on it, \<^verbatim>\<open>getattr\<close> on the \<^verbatim>\<open>Event\<close> object is
  \<^verbatim>\<open>getattr\<close> on its \<^verbatim>\<open>noclick_method\<close>: the same value, or the same \<^verbatim>\<open>AttributeError\<close>.
  The ordinary lookup fails for a name when it is none of the three fields of \<^verbatim>\<open>Event\<close>,
  none of the names that the class statements of \<^verbatim>\<open>Event\<close> and \<^verbatim>\<open>Method\<close> define, and
  none of the names that the object has from outside \<^verbatim>\<open>method.py\<close>; this is the case of
  \<^verbatim>\<open>rtol\<close>, \<^verbatim>\<open>atol\<close>, \<^verbatim>\<open>max_steps\<close> and \<^verbatim>\<open>dt\<close> whenever the object has no attribute of that
  name from outside \<^verbatim>\<open>method.py\<close>.  A name that the ordinary lookup finds is not delegated.
\<close>

theorem Event_getattr_delegates:
  "(normal_lookup base (Event nm rf ss) a = None \<longrightarrow>
      getattr base (Event nm rf ss) a = getattr base nm a)
   \<and> (normal_lookup base (Event nm rf ss) a = None \<longleftrightarrow>
        a \<notin> {''noclick_method'', ''root_finder'', ''smart_sampling'', ''SUPPORTED_GRADIENT'',
               ''supports_gradient'', ''assert_supports_gradient'', ''__str__'', ''__init__'',
               ''__doc__'', ''__module__'', ''__annotations__'', ''__getattr__''}
        \<and> base (Event nm rf ss) a = None)
   \<and> (a \<in> {''rtol'', ''atol'', ''max_steps'', ''dt''} \<and> base (Event nm rf ss) a = None \<longrightarrow>
        getattr base (Event nm rf ss) a = getattr base nm a)
   \<and> (normal_lookup base (Event nm rf ss) a = Some v \<longrightarrow>
        getattr base (Event nm rf ss) a = Inr v)"
  by (auto simp: normal_lookup_def class_attrs_def split: option.splits)

theorem Event_getattr_delegates_witness:
  "normal_lookup example_object_attrs (Event (Tsit5 default_adaptive) None False) ''rtol'' = None
   \<and> getattr example_object_attrs (Event (Tsit5 default_adaptive) None False) ''rtol''
       = Inr (AFloat (1 / 1000000))
   \<and> getattr example_object_attrs (Event (Euler (1 / 10)) None False) ''rtol''
       = Inl (AttributeError ''rtol'')
   \<and> getattr example_object_attrs (Event (Euler (1 / 10)) None False) ''dt''
       = Inr (AFloat (1 / 10))
   \<and> normal_lookup example_object_attrs (Event (Euler (1 / 10)) None False) ''__doc__''
       = Some (ADocstring ''Event'')
   \<and> getattr example_object_attrs (Event (Euler (1 / 10)) None False) ''__doc__''
       = Inr (ADocstring ''Event'')
   \<and> getattr example_object_attrs (Event (Euler (1 / 10)) None False) ''__class__''
       = Inr (AClasses [''Event''])"
  using Event_getattr_delegates [of example_object_attrs "Tsit5 default_adaptive" None False
      "''rtol''" "AFloat 0"]
    Event_getattr_delegates [of example_object_attrs "Euler (1 / 10)" None False "''rtol''"
      "AFloat 0"]
    Event_getattr_delegates [of example_object_attrs "Euler (1 / 10)" None False "''dt''"
      "AFloat 0"]
    Event_getattr_delegates [of example_object_attrs "Euler (1 / 10)" None False "''__doc__''"
      "ADocstring ''Event''"]
    Event_getattr_delegates [of example_object_attrs "Euler (1 / 10)" None False "''__class__''"
      "AClasses [''Event'']"]
  by (simp add: normal_lookup_def class_attrs_def adaptive_fields_def default_adaptive_def
      example_object_attrs_def)

text \<open>
  C2.  With an \<^verbatim>\<open>Event\<close> method whose \<^verbatim>\<open>smart_sampling\<close> is true and at least one key
  (\<open>keys\<close> has \<open>Suc d\<close> keys): the first key, \<^verbatim>\<open>keys[0]\<close>, is given to one single-trajectory
  solve with \<^verbatim>\<open>noclick = True\<close> and \<^verbatim>\<open>noclick_min_prob = 0\<close>; the key \<open>i + 1\<close> is given
  to a solve with \<^verbatim>\<open>noclick = False\<close> and \<^verbatim>\<open>noclick_min_prob\<close> the square of the final state
  norm of that no-click result; in the returned result every leaf of a field that is not
  vectorized is the leaf of the no-click result, and every leaf of a vectorized field has
  one more leading axis of extent \<open>Suc d\<close>, whose index 0 holds the no-click leaf and whose
  index \<open>i + 1\<close> holds the leaf of the solve for key \<open>i + 1\<close>.  The hypothesis is that the
  single-trajectory solve succeeds with a result of one signature for every key.
\<close>

theorem smart_sampling_prepends_noclick:
  fixes k :: "nat list \<Rightarrow> 'a"
  assumes "single_trajectory_static env H Ls psi0 tsave exp_ops (Event nm rf True) gradient
             options s sig"
    and "keys = Arr (Suc d # s) k"
  shows "\<exists>noclick r.
      jssesolve_single_trajectory env H Ls psi0 tsave (slice 0 keys) True 0 exp_ops
          (Event nm rf True) gradient options = Inr noclick
    \<and> vectorized_clicks_jssesolve env H Ls psi0 tsave keys exp_ops (Event nm rf True) gradient
          options = Inr r
    \<and> map fst r = map fst noclick
    \<and> (\<forall>j<length r.
         (out_axes (fst (r ! j)) = None \<longrightarrow> snd (r ! j) = snd (noclick ! j))
       \<and> (out_axes (fst (r ! j)) \<noteq> None \<longrightarrow>
            shape_of (snd (r ! j)) = Suc d # shape_of (snd (noclick ! j))
          \<and> (\<forall>idx. entries (snd (r ! j)) (0 # idx) = entries (snd (noclick ! j)) idx)
          \<and> (\<forall>i<d. \<exists>click.
               jssesolve_single_trajectory env H Ls psi0 tsave (slice (Suc i) keys) False
                   ((final_state_norm env noclick)\<^sup>2) exp_ops (Event nm rf True) gradient
                   options = Inr click
             \<and> (\<forall>idx. entries (snd (r ! j)) (Suc i # idx) = entries (snd (click ! j)) idx))))"
  using assms by (rule vectorized_clicks_smart_trajectories)

theorem smart_sampling_prepends_noclick_witness:
  "single_trajectory_static example_env example_H [example_L] example_psi0 example_tsave None
     (Event (Tsit5 default_adaptive) None True) None default_options [] example_sig
   \<and> example_keys = Arr (Suc 1 # []) (\<lambda>idx. 5 + hd idx)
   \<and> (\<exists>r. vectorized_clicks_jssesolve example_env example_H [example_L] example_psi0
             example_tsave example_keys None (Event (Tsit5 default_adaptive) None True) None
             default_options = Inr r
          \<and> map fst r = [''tsave'', ''method'', ''gradient'', ''options'', ''_saved'', ''infos'',
                          ''keys'']
          \<and> snd (r ! 0) = example_tsave
          \<and> shape_of (snd (r ! 4)) = [2]
          \<and> map (\<lambda>i. entries (snd (r ! 4)) [i]) [0, 1] = [Some 1215, Some 216]
          \<and> map (\<lambda>i. entries (snd (r ! 5)) [i]) [0, 1] = [Some 0, Some 1]
          \<and> map (\<lambda>i. entries (snd (r ! 6)) [i]) [0, 1] = [Some 5, Some 6])"
proof -
  let ?m = "Event (Tsit5 default_adaptive) None True"
  let ?run = "integrator_run example_env ''jssesolve_event_tsit5_integrator_constructor''
      example_tsave example_psi0 ?m None default_options example_H [example_L] None"
  have st: "single_trajectory_static example_env example_H [example_L] example_psi0 example_tsave
     None ?m None default_options [] example_sig"
    by (rule example_static)
  have keys: "example_keys = Arr (Suc 1 # []) (\<lambda>idx. 5 + hd idx)"
    by (simp add: example_keys_def)
  from smart_sampling_prepends_noclick [OF st keys]
  obtain noclick r where
    n: "jssesolve_single_trajectory example_env example_H [example_L] example_psi0 example_tsave
          (slice 0 example_keys) True 0 None ?m None default_options = Inr noclick"
    and v: "vectorized_clicks_jssesolve example_env example_H [example_L] example_psi0
          example_tsave example_keys None ?m None default_options = Inr r"
    and nm: "map fst r = map fst noclick"
    and every: "\<forall>j<length r.
         (out_axes (fst (r ! j)) = None \<longrightarrow> snd (r ! j) = snd (noclick ! j))
       \<and> (out_axes (fst (r ! j)) \<noteq> None \<longrightarrow>
            shape_of (snd (r ! j)) = Suc 1 # shape_of (snd (noclick ! j))
          \<and> (\<forall>idx. entries (snd (r ! j)) (0 # idx) = entries (snd (noclick ! j)) idx)
          \<and> (\<forall>i<1. \<exists>click.
               jssesolve_single_trajectory example_env example_H [example_L] example_psi0
                   example_tsave (slice (Suc i) example_keys) False
                   ((final_state_norm example_env noclick)\<^sup>2) None ?m None default_options
                 = Inr click
             \<and> (\<forall>idx. entries (snd (r ! j)) (Suc i # idx) = entries (snd (click ! j)) idx)))"
    by (elim exE conjE)
  have nc: "noclick = ?run (slice 0 example_keys) True 0"
    using n by (simp add: example_single)
  have p: "(final_state_norm example_env noclick)\<^sup>2 = 1 / 4"
    by (simp add: example_env_def power2_eq_square)
  have click: "\<And>i j. i < 1 \<Longrightarrow> j < length r \<Longrightarrow> out_axes (fst (r ! j)) \<noteq> None \<Longrightarrow>
      entries (snd (r ! j)) [Suc i]
        = entries (snd (?run (slice (Suc i) example_keys) False (1 / 4) ! j)) []"
    using every by (simp add: example_single p)
  have names: "map fst r = [''tsave'', ''method'', ''gradient'', ''options'', ''_saved'',
      ''infos'', ''keys'']"
    by (simp add: nm nc example_env_def)
  from names have "length (map fst r) = 7" by simp
  then have len: "length r = 7" by simp
  have f: "\<And>j. j < 7 \<Longrightarrow> fst (r ! j) = [''tsave'', ''method'', ''gradient'', ''options'',
      ''_saved'', ''infos'', ''keys''] ! j"
    using names len nth_map [of _ r fst] by metis
  have f0: "fst (r ! 0) = ''tsave''" using f [of 0] by simp
  have f4: "fst (r ! 4) = ''_saved''" using f [of 4] by simp
  have f5: "fst (r ! 5) = ''infos''" using f [of 5] by simp
  have f6: "fst (r ! 6) = ''keys''" using f [of 6] by simp
  have r0: "snd (r ! 0) = example_tsave"
    using every len f0 by (simp add: out_axes_def nc example_env_def)
  have o4: "out_axes (fst (r ! 4)) \<noteq> None" "out_axes (fst (r ! 5)) \<noteq> None"
    "out_axes (fst (r ! 6)) \<noteq> None"
    by (simp_all add: f4 f5 f6 out_axes_def)
  have z: "\<And>j. j < length r \<Longrightarrow> out_axes (fst (r ! j)) \<noteq> None \<Longrightarrow>
      shape_of (snd (r ! j)) = 2 # shape_of (snd (noclick ! j))
      \<and> entries (snd (r ! j)) [0] = entries (snd (noclick ! j)) []"
    using every by simp
  have s4: "shape_of (snd (r ! 4)) = [2]"
    using z [of 4] o4 len by (simp add: nc example_env_def)
  have e4: "map (\<lambda>i. entries (snd (r ! 4)) [i]) [0, 1] = [Some 1215, Some 216]"
    using z [of 4] click [of 0 4] o4 len
    by (simp add: nc example_env_def example_keys_def example_H_def example_L_def)
  have e5: "map (\<lambda>i. entries (snd (r ! 5)) [i]) [0, 1] = [Some 0, Some 1]"
    using z [of 5] click [of 0 5] o4 len
    by (simp add: nc example_env_def)
  have e6: "map (\<lambda>i. entries (snd (r ! 6)) [i]) [0, 1] = [Some 5, Some 6]"
    using z [of 6] click [of 0 6] o4 len
    by (simp add: nc example_env_def example_keys_def)
  show ?thesis
    by (intro conjI exI [of _ r]) (fact st keys v names r0 s4 e4 e5 e6)+
qed


text \<open>
  C3.  The trajectory map of \<^verbatim>\<open>_vectorized_clicks_jssesolve\<close> maps over the keys only.  In
  the returned result every leaf of a vectorized field has a leading axis whose extent is the
  number \<open>n\<close> of keys, and its index \<open>i\<close> holds the leaf of the single-trajectory solve that
  was given the key \<open>i\<close> and the very same \<open>H\<close>, jump operators, initial state, save times,
  observables, method, gradient and options as every other trajectory; a leaf of a field that
  is not vectorized (the method, the gradient and the options among them) is the leaf of one
  single-trajectory solve, with no axis added.  With \<^verbatim>\<open>smart_sampling\<close> the first
  trajectory is the no-click one and \<open>n\<close> is at least one.
\<close>

theorem trajectories_share_all_but_the_key:
  fixes k :: "nat list \<Rightarrow> 'a"
  assumes st: "single_trajectory_static env H Ls psi0 tsave exp_ops (Event nm rf b) gradient
                 options s sig"
    and keys: "keys = Arr (n # s) k"
    and nonempty: "b \<longrightarrow> 0 < n"
  shows "\<exists>first r.
      jssesolve_single_trajectory env H Ls psi0 tsave (slice 0 keys) b 0 exp_ops
          (Event nm rf b) gradient options = Inr first
    \<and> vectorized_clicks_jssesolve env H Ls psi0 tsave keys exp_ops (Event nm rf b) gradient
          options = Inr r
    \<and> map fst r = map fst first
    \<and> (\<forall>j<length r.
         (out_axes (fst (r ! j)) = None \<longrightarrow> snd (r ! j) = snd (first ! j))
       \<and> (out_axes (fst (r ! j)) \<noteq> None \<longrightarrow>
            shape_of (snd (r ! j)) = n # shape_of (snd (first ! j))
          \<and> (\<forall>i<n. \<exists>t.
               jssesolve_single_trajectory env H Ls psi0 tsave (slice i keys) (b \<and> i = 0)
                   (if b \<and> 0 < i then (final_state_norm env first)\<^sup>2 else 0) exp_ops
                   (Event nm rf b) gradient options = Inr t
             \<and> (\<forall>idx. entries (snd (r ! j)) (i # idx) = entries (snd (t ! j)) idx))))"
proof (cases b)
  case True
  with nonempty obtain d where n: "n = Suc d" by (cases n) auto
  have bT: "b = True" using True by simp
  note st' = st [unfolded bT]
  from vectorized_clicks_smart_trajectories [OF st' keys [unfolded n]]
  obtain N r where
    eN: "jssesolve_single_trajectory env H Ls psi0 tsave (slice 0 keys) True 0 exp_ops
          (Event nm rf True) gradient options = Inr N"
    and v: "vectorized_clicks_jssesolve env H Ls psi0 tsave keys exp_ops (Event nm rf True)
          gradient options = Inr r"
    and nm: "map fst r = map fst N"
    and every: "\<forall>j<length r.
         (out_axes (fst (r ! j)) = None \<longrightarrow> snd (r ! j) = snd (N ! j))
       \<and> (out_axes (fst (r ! j)) \<noteq> None \<longrightarrow>
            shape_of (snd (r ! j)) = Suc d # shape_of (snd (N ! j))
          \<and> (\<forall>idx. entries (snd (r ! j)) (0 # idx) = entries (snd (N ! j)) idx)
          \<and> (\<forall>i<d. \<exists>click.
               jssesolve_single_trajectory env H Ls psi0 tsave (slice (Suc i) keys) False
                   ((final_state_norm env N)\<^sup>2) exp_ops (Event nm rf True) gradient
                   options = Inr click
             \<and> (\<forall>idx. entries (snd (r ! j)) (Suc i # idx) = entries (snd (click ! j)) idx)))"
    by (elim exE conjE)
  show ?thesis unfolding bT
  proof (rule exI [of _ N], rule exI [of _ r], intro conjI allI impI)
    show "jssesolve_single_trajectory env H Ls psi0 tsave (slice 0 keys) True 0 exp_ops
          (Event nm rf True) gradient options = Inr N" by (rule eN)
    show "vectorized_clicks_jssesolve env H Ls psi0 tsave keys exp_ops (Event nm rf True)
          gradient options = Inr r" by (rule v)
    show "map fst r = map fst N" by (rule nm)
  next
    fix j assume "j < length r" "out_axes (fst (r ! j)) = None"
    then show "snd (r ! j) = snd (N ! j)" using every by simp
  next
    fix j assume "j < length r" "out_axes (fst (r ! j)) \<noteq> None"
    then show "shape_of (snd (r ! j)) = n # shape_of (snd (N ! j))" using every n by simp
  next
    fix j i assume j: "j < length r" "out_axes (fst (r ! j)) \<noteq> None" and i: "i < n"
    show "\<exists>t. jssesolve_single_trajectory env H Ls psi0 tsave (slice i keys) (True \<and> i = 0)
                   (if True \<and> 0 < i then (final_state_norm env N)\<^sup>2 else 0) exp_ops
                   (Event nm rf True) gradient options = Inr t
             \<and> (\<forall>idx. entries (snd (r ! j)) (i # idx) = entries (snd (t ! j)) idx)"
    proof (cases i)
      case 0
      have "\<forall>idx. entries (snd (r ! j)) (0 # idx) = entries (snd (N ! j)) idx"
        using every j by simp
      then show ?thesis using eN by (simp add: 0)
    next
      case (Suc i')
      then have "i' < d" using i n by simp
      then have "\<exists>click.
               jssesolve_single_trajectory env H Ls psi0 tsave (slice (Suc i') keys) False
                   ((final_state_norm env N)\<^sup>2) exp_ops (Event nm rf True) gradient
                   options = Inr click
             \<and> (\<forall>idx. entries (snd (r ! j)) (Suc i' # idx) = entries (snd (click ! j)) idx)"
        using every j by simp
      then show ?thesis by (simp add: Suc)
    qed
  qed
next
  case False
  have bF: "b = False" using False by simp
  note st' = st [unfolded bF]
  define T where "T = (\<lambda>i. projr (jssesolve_single_trajectory env H Ls psi0 tsave
                         (Arr s (\<lambda>idx. k (i # idx))) False 0 exp_ops (Event nm rf False) gradient
                         options))"
  have eT: "\<And>i. jssesolve_single_trajectory env H Ls psi0 tsave (slice i keys) False 0 exp_ops
              (Event nm rf False) gradient options = Inr (T i)"
    unfolding T_def keys using static_Inr(1) [OF st'] by simp
  have sT: "has_signature (T 0) sig" unfolding T_def by (rule static_Inr(2) [OF st'])
  from vectorized_clicks_plain [OF st', where k = k and n = n]
  obtain r where v: "vectorized_clicks_jssesolve env H Ls psi0 tsave (Arr (n # s) k) exp_ops
        (Event nm rf False) gradient options = Inr r"
    and nm: "map fst r = map fst sig"
    and every: "\<forall>j<length sig.
         (out_axes (fst (sig ! j)) = None \<longrightarrow> snd (r ! j) = snd (T 0 ! j)) \<and>
         (out_axes (fst (sig ! j)) \<noteq> None \<longrightarrow>
            shape_of (snd (r ! j)) = n # snd (sig ! j) \<and>
            (\<forall>i<n. \<forall>idx. entries (snd (r ! j)) (i # idx) = entries (snd (T i ! j)) idx))"
    unfolding T_def by (elim exE conjE)
  have lr: "length r = length sig" using nm by (metis length_map)
  have fr: "\<And>j. j < length sig \<Longrightarrow> fst (r ! j) = fst (sig ! j)"
    using nm lr by (metis length_map nth_map)
  show ?thesis unfolding bF
  proof (rule exI [of _ "T 0"], rule exI [of _ r], intro conjI allI impI)
    show "jssesolve_single_trajectory env H Ls psi0 tsave (slice 0 keys) False 0 exp_ops
          (Event nm rf False) gradient options = Inr (T 0)" by (rule eT)
    show "vectorized_clicks_jssesolve env H Ls psi0 tsave keys exp_ops (Event nm rf False)
          gradient options = Inr r" unfolding keys by (rule v)
    show "map fst r = map fst (T 0)" by (simp only: nm has_signature_names [OF sT])
  next
    fix j assume "j < length r" "out_axes (fst (r ! j)) = None"
    then show "snd (r ! j) = snd (T 0 ! j)" using every lr fr by simp
  next
    fix j assume j: "j < length r" "out_axes (fst (r ! j)) \<noteq> None"
    then have j': "j < length sig" "out_axes (fst (sig ! j)) \<noteq> None" using lr fr by simp_all
    show "shape_of (snd (r ! j)) = n # shape_of (snd (T 0 ! j))"
      using every j' has_signature_nth [OF sT j'] by simp
  next
    fix j i assume j: "j < length r" "out_axes (fst (r ! j)) \<noteq> None" and i: "i < n"
    then have j': "j < length sig" "out_axes (fst (sig ! j)) \<noteq> None" using lr fr by simp_all
    have "\<forall>idx. entries (snd (r ! j)) (i # idx) = entries (snd (T i ! j)) idx"
      using every j' i by simp
    then show "\<exists>t. jssesolve_single_trajectory env H Ls psi0 tsave (slice i keys) (False \<and> i = 0)
                   (if False \<and> 0 < i then (final_state_norm env (T 0))\<^sup>2 else 0) exp_ops
                   (Event nm rf False) gradient options = Inr t
             \<and> (\<forall>idx. entries (snd (r ! j)) (i # idx) = entries (snd (t ! j)) idx)"
      using eT [of i] by simp
  qed
qed


theorem trajectories_share_all_but_the_key_witness:
  "single_trajectory_static example_env example_H [example_L] example_psi0 example_tsave None
     (Event (Tsit5 default_adaptive) None False) None default_options [] example_sig
   \<and> example_keys = Arr (2 # []) (\<lambda>idx. 5 + hd idx)
   \<and> (\<exists>r. vectorized_clicks_jssesolve example_env example_H [example_L] example_psi0
             example_tsave example_keys None (Event (Tsit5 default_adaptive) None False) None
             default_options = Inr r
          \<and> map fst r = [''tsave'', ''method'', ''gradient'', ''options'', ''_saved'', ''infos'',
                          ''keys'']
          \<and> snd (r ! 1) = VMethod (Event (Tsit5 default_adaptive) None False)
          \<and> snd (r ! 2) = VGradient None
          \<and> snd (r ! 3) = VOptions default_options
          \<and> shape_of (snd (r ! 4)) = [2]
          \<and> map (\<lambda>i. entries (snd (r ! 4)) [i]) [0, 1] = [Some 215, Some 216]
          \<and> map (\<lambda>i. entries (snd (r ! 6)) [i]) [0, 1] = [Some 5, Some 6])"
proof -
  let ?m = "Event (Tsit5 default_adaptive) None False"
  let ?run = "integrator_run example_env ''jssesolve_event_tsit5_integrator_constructor''
      example_tsave example_psi0 ?m None default_options example_H [example_L] None"
  have st: "single_trajectory_static example_env example_H [example_L] example_psi0 example_tsave
     None ?m None default_options [] example_sig"
    by (rule example_static)
  have keys: "example_keys = Arr (2 # []) (\<lambda>idx. 5 + hd idx)"
    by (simp add: example_keys_def)
  have ne: "False \<longrightarrow> (0 :: nat) < 2" by simp
  from trajectories_share_all_but_the_key [OF st keys ne]
  obtain first r where
    n: "jssesolve_single_trajectory example_env example_H [example_L] example_psi0 example_tsave
          (slice 0 example_keys) False 0 None ?m None default_options = Inr first"
    and v: "vectorized_clicks_jssesolve example_env example_H [example_L] example_psi0
          example_tsave example_keys None ?m None default_options = Inr r"
    and nm: "map fst r = map fst first"
    and every: "\<forall>j<length r.
         (out_axes (fst (r ! j)) = None \<longrightarrow> snd (r ! j) = snd (first ! j))
       \<and> (out_axes (fst (r ! j)) \<noteq> None \<longrightarrow>
            shape_of (snd (r ! j)) = 2 # shape_of (snd (first ! j))
          \<and> (\<forall>i<2. \<exists>t.
               jssesolve_single_trajectory example_env example_H [example_L] example_psi0
                   example_tsave (slice i example_keys) (False \<and> i = 0)
                   (if False \<and> 0 < i then (final_state_norm example_env first)\<^sup>2 else 0)
                   None ?m None default_options = Inr t
             \<and> (\<forall>idx. entries (snd (r ! j)) (i # idx) = entries (snd (t ! j)) idx)))"
    by (elim exE conjE)
  have fi: "first = ?run (slice 0 example_keys) False 0"
    using n by (simp add: example_single)
  have traj: "\<And>i j. i < 2 \<Longrightarrow> j < length r \<Longrightarrow> out_axes (fst (r ! j)) \<noteq> None \<Longrightarrow>
      entries (snd (r ! j)) [i] = entries (snd (?run (slice i example_keys) False 0 ! j)) []"
    using every by (simp add: example_single)
  have names: "map fst r = [''tsave'', ''method'', ''gradient'', ''options'', ''_saved'',
      ''infos'', ''keys'']"
    by (simp add: nm fi example_env_def)
  from names have "length (map fst r) = 7" by simp
  then have len: "length r = 7" by simp
  have f: "\<And>j. j < 7 \<Longrightarrow> fst (r ! j) = [''tsave'', ''method'', ''gradient'', ''options'',
      ''_saved'', ''infos'', ''keys''] ! j"
    using names len nth_map [of _ r fst] by metis
  have f1: "fst (r ! 1) = ''method''" using f [of 1] by simp
  have f2: "fst (r ! 2) = ''gradient''" using f [of 2] by simp
  have f3: "fst (r ! 3) = ''options''" using f [of 3] by simp
  have f4: "fst (r ! 4) = ''_saved''" using f [of 4] by simp
  have f6: "fst (r ! 6) = ''keys''" using f [of 6] by simp
  have r1: "snd (r ! 1) = VMethod ?m"
    using every len f1 by (simp add: out_axes_def fi example_env_def)
  have r2: "snd (r ! 2) = VGradient None"
    using every len f2 by (simp add: out_axes_def fi example_env_def)
  have r3: "snd (r ! 3) = VOptions default_options"
    using every len f3 by (simp add: out_axes_def fi example_env_def)
  have o4: "out_axes (fst (r ! 4)) \<noteq> None" "out_axes (fst (r ! 6)) \<noteq> None"
    by (simp_all add: f4 f6 out_axes_def)
  have s4: "shape_of (snd (r ! 4)) = [2]"
    using every o4 len by (simp add: fi example_env_def)
  have e4: "map (\<lambda>i. entries (snd (r ! 4)) [i]) [0, 1] = [Some 215, Some 216]"
    using traj [of 0 4] traj [of 1 4] o4 len
    by (simp add: example_env_def example_keys_def example_H_def example_L_def)
  have e6: "map (\<lambda>i. entries (snd (r ! 6)) [i]) [0, 1] = [Some 5, Some 6]"
    using traj [of 0 6] traj [of 1 6] o4 len
    by (simp add: example_env_def example_keys_def)
  show ?thesis
    by (intro conjI exI [of _ r]) (fact st keys v names r1 r2 r3 s4 e4 e6)+
qed

text \<open>
  C8.  The claim has the second assertion of \<^verbatim>\<open>_test_gradient\<close> compare the gradients of
  the expectation values.  The code computes them and then repeats the comparison of the
  gradients of the final state: the outcome of the test does not depend on the gradients
  of the expectation values at all, and at gradients of the expectation values that
  differ by three orders of magnitude the test passes with the tolerances of
  \<^verbatim>\<open>test_euler.py\<close>, where the test as described fails.
\<close>

theorem test_gradient_repeats_ysave_comparison:
  "test_gradient repr (g\<lparr>true_grads_Esave := tE, grads_Esave := gE\<rparr>) rtol' atol'
     = test_gradient repr g rtol' atol'
   \<and> test_gradient repr wrong_Esave_gradients (1 / 100) (1 / 100) = Inr ()
   \<and> test_gradient_as_described repr wrong_Esave_gradients (1 / 100) (1 / 100)
       = Inl (AssertionError
           (''Pytrees are not close enough: '' @ [CHR 0x0A] @ repr [[1]] @ [CHR 0x0A]
            @ repr [[1000]]))"
  by (simp add: test_gradient_def test_gradient_as_described_def assert_allclose_def
      tree_map2_def tree_reduce_def allclose_def wrong_Esave_gradients_def)

text \<open>
  C9.  \<^verbatim>\<open>jssesolve\<close> called with the empty list for \<^verbatim>\<open>exp_ops\<close> returns what it returns when
  called with \<^verbatim>\<open>None\<close>: the same error or the same result, for every integrator and every
  other argument.  (The list is replaced by \<^verbatim>\<open>None\<close> before the argument checks, so no
  observable is checked and the integrator is given \<^verbatim>\<open>Es = None\<close>.)
\<close>

theorem jssesolve_empty_exp_ops_is_None:
  "jssesolve env H jump_ops psi0 tsave keys (Some []) method gradient options =
   jssesolve env H jump_ops psi0 tsave keys None method gradient options"
  by (simp add: jssesolve_def convert_exp_ops_def)




end
